theory Spec2Isabelle
  imports Complex_Main "HOL-Library.Word" "HOL-Library.Signed_Division" "HOL-Library.Log_Nat"
begin

unbundle bit_operations_syntax

section \<open>Numeric base types\<close>

text \<open>
  The time representation of \<^verbatim>\<open>timeRepresentation.h\<close> works on two base types:
  \<^verbatim>\<open>std::int64_t\<close> and \<^verbatim>\<open>double\<close>.

  \<^item> \<^verbatim>\<open>std::int64_t\<close> is a 64-bit word read in two's complement (\<open>sint\<close>).  Addition,
    subtraction, multiplication and the left shift wrap around, as the machine does
    (C++ leaves the overflow undefined); \<^verbatim>\<open>>>\<close> is the arithmetic shift.  Division and
    remainder have no value in C++ when the divisor is zero or when the quotient is not
    representable (\<^verbatim>\<open>INT64_MIN / -1\<close>), and the machine traps; both are \<open>None\<close> here.
  \<^item> A \<^verbatim>\<open>double\<close> is the real number it stands for.  Every arithmetic operation, every
    conversion from \<^verbatim>\<open>std::int64_t\<close> and every constant of the source is rounded to the
    nearest double, ties to the even significand (\<open>round_double\<close>), each operation on its
    own.  There is no infinity and no NaN: a division whose divisor is a run-time value
    is \<open>None\<close> for a zero divisor, and a result beyond the largest double is not cut off.
    The conversion to \<^verbatim>\<open>std::int64_t\<close> is \<open>None\<close> when the truncated value does not fit
    (undefined in C++).
\<close>

type_synonym int64 = "64 word"
type_synonym int32 = "32 word"
type_synonym double = real

subsection \<open>Rounding to a double\<close>

text \<open>
  A double has a significand of 53 bits.  For a positive \<open>a\<close>, \<open>ilog2 a\<close> is the exponent
  \<open>k\<close> with \<open>2^k \<le> a < 2^(k+1)\<close>; the doubles around \<open>x\<close> are the multiples of
  \<open>2^(k-52)\<close>, and of \<open>2^-1074\<close> in the subnormal range.
\<close>

definition ilog2 :: "real \<Rightarrow> int" where
  "ilog2 a = (if 1 \<le> a then bitlen \<lfloor>a\<rfloor> - 1 else - bitlen (\<lceil>1 / a\<rceil> - 1))"

definition ulp_exponent :: "real \<Rightarrow> int" where
  "ulp_exponent x = max (ilog2 \<bar>x\<bar> - 52) (- 1074)"

definition round_half_even :: "real \<Rightarrow> int" where
  "round_half_even y =
     (if y - real_of_int \<lfloor>y\<rfloor> < 1 / 2 then \<lfloor>y\<rfloor>
      else if 1 / 2 < y - real_of_int \<lfloor>y\<rfloor> then \<lfloor>y\<rfloor> + 1
      else if even \<lfloor>y\<rfloor> then \<lfloor>y\<rfloor> else \<lfloor>y\<rfloor> + 1)"

definition round_double :: "real \<Rightarrow> double" where
  "round_double x =
     (if x = 0 then 0
      else real_of_int (round_half_even (x / 2 powi ulp_exponent x)) * 2 powi ulp_exponent x)"

definition double_add :: "double \<Rightarrow> double \<Rightarrow> double" where
  "double_add a b = round_double (a + b)"

definition double_sub :: "double \<Rightarrow> double \<Rightarrow> double" where
  "double_sub a b = round_double (a - b)"

definition double_mult :: "double \<Rightarrow> double \<Rightarrow> double" where
  "double_mult a b = round_double (a * b)"

text \<open>The quotient by a divisor that is not zero.\<close>

definition double_quot :: "double \<Rightarrow> double \<Rightarrow> double" where
  "double_quot a b = round_double (a / b)"

subsection \<open>The limits of \<^verbatim>\<open>std::int64_t\<close>\<close>

definition INT64_MAX :: int64 where
  "INT64_MAX = 0x7FFFFFFFFFFFFFFF"

definition INT64_MIN :: int64 where
  "INT64_MIN = 0x8000000000000000"

section \<open>Time units and the conversion tables\<close>

datatype timeUnits = ps | ns | us | ms | s | sec | minutes | hr | day

text \<open>\<^verbatim>\<open>static_cast<int> (units)\<close>: the enumerators are numbered 0 to 8.\<close>

fun static_cast_int :: "timeUnits \<Rightarrow> nat" where
  "static_cast_int ps = 0"
| "static_cast_int ns = 1"
| "static_cast_int us = 2"
| "static_cast_int ms = 3"
| "static_cast_int s = 4"
| "static_cast_int sec = 5"
| "static_cast_int minutes = 6"
| "static_cast_int hr = 7"
| "static_cast_int day = 8"

text \<open>
  The two tables hold the constants as the source writes them; the double that an entry
  stands for is the written value rounded, which is taken where an entry is used.
\<close>

definition timeCountforward :: "real list" where
  "timeCountforward =
     [1000000000000, 1000000000, 1000000, 1000, 1, 1, 10 / 60, 1 / 3600, 1 / 86400]"

definition timeCountReverse :: "real list" where
  "timeCountReverse =
     [1 / 1000000000000, 1 / 1000000000, 1 / 1000000, 1 / 1000, 1, 1, 60, 3600, 86400]"

section \<open>Operators of the base types\<close>

text \<open>\<^verbatim>\<open>static_cast<std::int64_t> (d)\<close> truncates towards zero.\<close>

definition trunc :: "double \<Rightarrow> int" where
  "trunc d = (if 0 \<le> d then \<lfloor>d\<rfloor> else \<lceil>d\<rceil>)"

definition static_cast_int64 :: "double \<Rightarrow> int64 option" where
  "static_cast_int64 d =
     (if - (2 ^ 63) \<le> trunc d \<and> trunc d < 2 ^ 63 then Some (word_of_int (trunc d)) else None)"

definition static_cast_double :: "int64 \<Rightarrow> double" where
  "static_cast_double v = round_double (real_of_int (sint v))"

text \<open>
  \<^verbatim>\<open>a / b\<close> and \<^verbatim>\<open>a % b\<close> on \<^verbatim>\<open>std::int64_t\<close>: the quotient truncates towards zero
  and the remainder has the sign of the dividend.  \<open>int64_sdiv\<close> and \<open>int64_smod\<close> are
  the values where C++ defines them; \<open>int64_div\<close> and \<open>int64_rem\<close> are the operators
  with their undefined cases.
\<close>

definition int64_sdiv :: "int64 \<Rightarrow> int64 \<Rightarrow> int64" where
  "int64_sdiv a b = word_of_int (sint a sdiv sint b)"

definition int64_smod :: "int64 \<Rightarrow> int64 \<Rightarrow> int64" where
  "int64_smod a b = word_of_int (sint a smod sint b)"

definition int64_div :: "int64 \<Rightarrow> int64 \<Rightarrow> int64 option" where
  "int64_div a b =
     (if b = 0 \<or> (a = INT64_MIN \<and> b = - 1) then None else Some (int64_sdiv a b))"

definition int64_rem :: "int64 \<Rightarrow> int64 \<Rightarrow> int64 option" where
  "int64_rem a b =
     (if b = 0 \<or> (a = INT64_MIN \<and> b = - 1) then None else Some (int64_smod a b))"

text \<open>
  Division of doubles by a run-time divisor, and \<^verbatim>\<open>std::fmod\<close>, whose result is the exact
  remainder of the truncated quotient and needs no rounding.
\<close>

definition double_div :: "double \<Rightarrow> double \<Rightarrow> double option" where
  "double_div x y = (if y = 0 then None else Some (double_quot x y))"

definition fmod :: "double \<Rightarrow> double \<Rightarrow> double option" where
  "fmod x y = (if y = 0 then None else Some (x - real_of_int (trunc (x / y)) * y))"

text \<open>
  The wrapper class is a template over the strategy, and applies the built-in operators
  of the strategy's \<^verbatim>\<open>baseType\<close> to the time code.  The record lists the operators it
  uses; an \<^verbatim>\<open>int\<close> operand is converted to the base type first.  There is no \<^verbatim>\<open>%\<close>
  on \<^verbatim>\<open>double\<close>.
\<close>

record 'b base_ops =
  is_integral :: bool
  op_plus :: "'b \<Rightarrow> 'b \<Rightarrow> 'b"
  op_minus :: "'b \<Rightarrow> 'b \<Rightarrow> 'b"
  op_times_int :: "'b \<Rightarrow> int32 \<Rightarrow> 'b"
  op_divide_int :: "'b \<Rightarrow> int32 \<Rightarrow> 'b option"
  op_modulo :: "'b \<Rightarrow> 'b \<Rightarrow> 'b option"
  op_less :: "'b \<Rightarrow> 'b \<Rightarrow> bool"
  op_less_equal :: "'b \<Rightarrow> 'b \<Rightarrow> bool"

definition int64_ops :: "int64 base_ops" where
  "int64_ops = \<lparr>
     is_integral = True,
     op_plus = (\<lambda>a b. a + b),
     op_minus = (\<lambda>a b. a - b),
     op_times_int = (\<lambda>a d. a * scast d),
     op_divide_int = (\<lambda>a d. int64_div a (scast d)),
     op_modulo = int64_rem,
     op_less = word_sless,
     op_less_equal = word_sle \<rparr>"

definition double_ops :: "double base_ops" where
  "double_ops = \<lparr>
     is_integral = False,
     op_plus = double_add,
     op_minus = double_sub,
     op_times_int = (\<lambda>a d. double_mult a (real_of_int (sint d))),
     op_divide_int = (\<lambda>a d. double_div a (real_of_int (sint d))),
     op_modulo = (\<lambda>a b. None),
     op_less = (\<lambda>a b. a < b),
     op_less_equal = (\<lambda>a b. a \<le> b) \<rparr>"

section \<open>Encoding strategies\<close>

text \<open>
  A strategy class has only static members; the record holds them, with the operators of
  its \<^verbatim>\<open>baseType\<close>.
\<close>

record 'b Tconv =
  baseType :: "'b base_ops"
  maxVal :: 'b
  minVal :: 'b
  zeroVal :: 'b
  epsilon :: 'b
  convert :: "double \<Rightarrow> 'b option"
  toDouble :: "'b \<Rightarrow> double"
  toCount :: "'b \<Rightarrow> timeUnits \<Rightarrow> int64 option"
  fromCount :: "int64 \<Rightarrow> timeUnits \<Rightarrow> 'b option"
  seconds :: "'b \<Rightarrow> int64 option"

subsection \<open>\<^verbatim>\<open>integer_time<N>\<close>: a count of 1/2^N seconds\<close>

fun pow2 :: "nat \<Rightarrow> double" where
  "pow2 0 = 1"
| "pow2 (Suc exponent) = double_mult 2 (pow2 exponent)"

text \<open>\<^verbatim>\<open>(1 << N) - 1\<close> is computed in \<^verbatim>\<open>int\<close> and then widened.\<close>

definition fracMask :: "nat \<Rightarrow> int64" where
  "fracMask N = scast (push_bit N (1 :: int32) - 1)"

definition multiplier :: "nat \<Rightarrow> double" where
  "multiplier N = pow2 N"

definition divisor :: "nat \<Rightarrow> double" where
  "divisor N = double_quot 1 (pow2 N)"

text \<open>The value \<^verbatim>\<open>nseconds\<close> that \<^verbatim>\<open>convert\<close> computes before it selects.\<close>

definition integer_time_nseconds :: "nat \<Rightarrow> double \<Rightarrow> int64 option" where
  "integer_time_nseconds N t =
     (let divd = double_mult t (multiplier N) in
      case static_cast_int64 divd of
        None \<Rightarrow> None
      | Some divBase \<Rightarrow>
          (let frac = double_sub divd (static_cast_double divBase) in
           case static_cast_int64 (double_mult frac (multiplier N)) of
             None \<Rightarrow> None
           | Some f \<Rightarrow> Some (push_bit N divBase + f)))"

definition integer_time_convert :: "nat \<Rightarrow> double \<Rightarrow> int64 option" where
  "integer_time_convert N t =
     (case integer_time_nseconds N t of
        None \<Rightarrow> None
      | Some nseconds \<Rightarrow> Some (if t < - 1000000000000 then nseconds else INT64_MIN))"

definition integer_time_toDouble :: "nat \<Rightarrow> int64 \<Rightarrow> double" where
  "integer_time_toDouble N val =
     double_add (static_cast_double (signed_drop_bit N val))
       (double_mult (static_cast_double (fracMask N AND val)) (divisor N))"

definition integer_time_toCount :: "nat \<Rightarrow> int64 \<Rightarrow> timeUnits \<Rightarrow> int64 option" where
  "integer_time_toCount N val units =
     static_cast_int64
       (double_mult (integer_time_toDouble N val)
         (round_double (timeCountforward ! static_cast_int units)))"

definition integer_time_fromCount :: "nat \<Rightarrow> int64 \<Rightarrow> timeUnits \<Rightarrow> int64 option" where
  "integer_time_fromCount N count units =
     static_cast_int64
       (double_quot (integer_time_toDouble N count)
         (round_double (timeCountforward ! static_cast_int units)))"

definition integer_time_seconds :: "nat \<Rightarrow> int64 \<Rightarrow> int64" where
  "integer_time_seconds N val = signed_drop_bit N val"

definition integer_time :: "nat \<Rightarrow> int64 Tconv" where
  "integer_time N = \<lparr>
     baseType = int64_ops,
     maxVal = INT64_MAX,
     minVal = INT64_MIN,
     zeroVal = 0,
     epsilon = 1,
     convert = integer_time_convert N,
     toDouble = integer_time_toDouble N,
     toCount = integer_time_toCount N,
     fromCount = integer_time_fromCount N,
     seconds = (\<lambda>val. Some (integer_time_seconds N val)) \<rparr>"

subsection \<open>\<^verbatim>\<open>count_time<N>\<close>: a count of 1/10^N seconds\<close>

definition fac10 :: "int64 list" where
  "fac10 = [1, 10, 100, 1000, 10000, 100000, 1000000, 10000000, 100000000, 1000000000,
     10000000000, 100000000000, 1000000000000, 10000000000000, 100000000000000,
     1000000000000000]"

text \<open>The entries of \<^verbatim>\<open>fac10f\<close> are whole numbers below \<open>2^53\<close>, so they are doubles.\<close>

definition fac10f :: "double list" where
  "fac10f = [1, 10, 100, 1000, 10000, 100000, 1000000, 10000000, 100000000, 1000000000,
     10000000000, 100000000000, 1000000000000, 10000000000000, 100000000000000,
     1000000000000000]"

definition iFactor :: "nat \<Rightarrow> int64" where
  "iFactor N = fac10 ! N"

definition dFactor :: "nat \<Rightarrow> double" where
  "dFactor N = fac10f ! N"

definition ddivFactor :: "nat \<Rightarrow> double" where
  "ddivFactor N = double_quot 1 (fac10f ! N)"

definition count_time_convert :: "nat \<Rightarrow> double \<Rightarrow> int64 option" where
  "count_time_convert N t =
     (if t > - 1000000000000 then static_cast_int64 (double_mult t (dFactor N))
      else Some INT64_MIN)"

text \<open>
  The divisors of \<^verbatim>\<open>count_time\<close> are constants computed from the tables, neither zero
  nor \<open>-1\<close>, so its quotients and remainders are always defined.
\<close>

definition count_time_toDouble :: "nat \<Rightarrow> int64 \<Rightarrow> double" where
  "count_time_toDouble N val =
     double_add (static_cast_double (int64_sdiv val (iFactor N)))
       (double_mult (static_cast_double (int64_smod val (iFactor N))) (ddivFactor N))"

definition count_time_seconds :: "nat \<Rightarrow> int64 \<Rightarrow> int64" where
  "count_time_seconds N val = int64_sdiv val (iFactor N)"

fun count_time_toCount :: "nat \<Rightarrow> int64 \<Rightarrow> timeUnits \<Rightarrow> int64" where
  "count_time_toCount N val ps =
     (if N \<ge> 12 then int64_sdiv val (fac10 ! (N - 12)) else val * fac10 ! (12 - N))"
| "count_time_toCount N val ns =
     (if N \<ge> 9 then int64_sdiv val (fac10 ! (N - 9)) else val * fac10 ! (9 - N))"
| "count_time_toCount N val us =
     (if N \<ge> 6 then int64_sdiv val (fac10 ! (N - 6)) else val * fac10 ! (6 - N))"
| "count_time_toCount N val ms =
     (if N \<ge> 3 then int64_sdiv val (fac10 ! (N - 3)) else val * fac10 ! (3 - N))"
| "count_time_toCount N val s = count_time_seconds N val"
| "count_time_toCount N val sec = count_time_seconds N val"
| "count_time_toCount N val minutes = int64_sdiv val (iFactor N * 60)"
| "count_time_toCount N val hr = int64_sdiv val (iFactor N * 3600)"
| "count_time_toCount N val day = int64_sdiv val (iFactor N * 86400)"

fun count_time_fromCount :: "nat \<Rightarrow> int64 \<Rightarrow> timeUnits \<Rightarrow> int64" where
  "count_time_fromCount N val ps =
     (if N \<ge> 12 then val * fac10 ! (N - 12) else int64_sdiv val (fac10 ! (12 - N)))"
| "count_time_fromCount N val ns =
     (if N \<ge> 9 then val * fac10 ! (N - 9) else int64_sdiv val (fac10 ! (9 - N)))"
| "count_time_fromCount N val us =
     (if N \<ge> 6 then val * fac10 ! (N - 6) else int64_sdiv val (fac10 ! (6 - N)))"
| "count_time_fromCount N val ms =
     (if N \<ge> 3 then val * fac10 ! (N - 3) else int64_sdiv val (fac10 ! (3 - N)))"
| "count_time_fromCount N val s = val * iFactor N"
| "count_time_fromCount N val sec = val * iFactor N"
| "count_time_fromCount N val minutes = val * 60 * iFactor N"
| "count_time_fromCount N val hr = val * 3600 * iFactor N"
| "count_time_fromCount N val day = val * 86400 * iFactor N"

definition count_time :: "nat \<Rightarrow> int64 Tconv" where
  "count_time N = \<lparr>
     baseType = int64_ops,
     maxVal = INT64_MAX,
     minVal = INT64_MIN,
     zeroVal = 0,
     epsilon = 1,
     convert = count_time_convert N,
     toDouble = count_time_toDouble N,
     toCount = (\<lambda>val units. Some (count_time_toCount N val units)),
     fromCount = (\<lambda>val units. Some (count_time_fromCount N val units)),
     seconds = (\<lambda>val. Some (count_time_seconds N val)) \<rparr>"

subsection \<open>\<^verbatim>\<open>double_time\<close>: the seconds themselves\<close>

definition double_time_toCount :: "double \<Rightarrow> timeUnits \<Rightarrow> int64 option" where
  "double_time_toCount val units =
     static_cast_int64
       (double_mult val (round_double (timeCountforward ! static_cast_int units)))"

definition double_time_fromCount :: "int64 \<Rightarrow> timeUnits \<Rightarrow> double" where
  "double_time_fromCount val units =
     double_mult (static_cast_double val)
       (round_double (timeCountReverse ! static_cast_int units))"

definition double_time :: "double Tconv" where
  "double_time = \<lparr>
     baseType = double_ops,
     maxVal = round_double (10 ^ 49),
     minVal = round_double (- (1456 * 10 ^ 44)),
     zeroVal = 0,
     epsilon = round_double (1 / 10 ^ 86),
     convert = (\<lambda>t. Some t),
     toDouble = (\<lambda>val. val),
     toCount = double_time_toCount,
     fromCount = (\<lambda>val units. Some (double_time_fromCount val units)),
     seconds = static_cast_int64 \<rparr>"

section \<open>The time value \<^verbatim>\<open>timeRepresentation<Tconv>\<close>\<close>

text \<open>
  A time value owns one time code of the strategy's base type, the member
  \<^verbatim>\<open>timecode_\<close> (the mirror field of the debug build is left out).  The strategy is a
  template argument; here it is the first argument of every operation.
\<close>

record 'b timeRepresentation =
  timecode :: 'b

text \<open>
  The default constructor is defaulted and the member has no initialiser.  A
  default-initialised object (\<^verbatim>\<open>timeRepresentation trep;\<close>, as the operators below
  declare their result) keeps what its storage held, which is the argument here; a
  value-initialised one (\<^verbatim>\<open>timeRepresentation ()\<close>, or static storage) is zero-initialised
  first.
\<close>

definition timeRepresentation_default :: "'b \<Rightarrow> 'b timeRepresentation" where
  "timeRepresentation_default indeterminate = \<lparr> timecode = indeterminate \<rparr>"

definition timeRepresentation_value_init :: "('b :: zero) timeRepresentation" where
  "timeRepresentation_value_init = \<lparr> timecode = 0 \<rparr>"

text \<open>The private tagged constructors, behind the four factories.\<close>

definition timeRepresentation_maxVal :: "'b Tconv \<Rightarrow> 'b timeRepresentation" where
  "timeRepresentation_maxVal S = \<lparr> timecode = maxVal S \<rparr>"

definition timeRepresentation_minVal :: "'b Tconv \<Rightarrow> 'b timeRepresentation" where
  "timeRepresentation_minVal S = \<lparr> timecode = minVal S \<rparr>"

definition timeRepresentation_zeroVal :: "'b Tconv \<Rightarrow> 'b timeRepresentation" where
  "timeRepresentation_zeroVal S = \<lparr> timecode = zeroVal S \<rparr>"

definition timeRepresentation_epsilon :: "'b Tconv \<Rightarrow> 'b timeRepresentation" where
  "timeRepresentation_epsilon S = \<lparr> timecode = epsilon S \<rparr>"

text \<open>Construction from seconds, and from a count of units.\<close>

definition timeRepresentation_double :: "'b Tconv \<Rightarrow> double \<Rightarrow> 'b timeRepresentation option" where
  "timeRepresentation_double S t = map_option (\<lambda>c. \<lparr> timecode = c \<rparr>) (convert S t)"

definition timeRepresentation_count ::
  "'b Tconv \<Rightarrow> int64 \<Rightarrow> timeUnits \<Rightarrow> 'b timeRepresentation option" where
  "timeRepresentation_count S count units =
     map_option (\<lambda>c. \<lparr> timecode = c \<rparr>) (fromCount S count units)"

definition seconds_of :: "'b Tconv \<Rightarrow> 'b timeRepresentation \<Rightarrow> int64 option" where
  "seconds_of S T = seconds S (timecode T)"

definition toCount_of :: "'b Tconv \<Rightarrow> 'b timeRepresentation \<Rightarrow> timeUnits \<Rightarrow> int64 option" where
  "toCount_of S T units = toCount S (timecode T) units"

definition operator_double :: "'b Tconv \<Rightarrow> 'b timeRepresentation \<Rightarrow> double" where
  "operator_double S T = toDouble S (timecode T)"

definition getBaseTimeCode :: "'b timeRepresentation \<Rightarrow> 'b" where
  "getBaseTimeCode T = timecode T"

definition setBaseTimeCode :: "'b timeRepresentation \<Rightarrow> 'b \<Rightarrow> 'b timeRepresentation" where
  "setBaseTimeCode T timecodeval = T \<lparr> timecode := timecodeval \<rparr>"

subsection \<open>Member arithmetic\<close>

text \<open>A compound assignment is modelled by the new value of its left operand.\<close>

definition operator_plus_assign ::
  "'b Tconv \<Rightarrow> 'b timeRepresentation \<Rightarrow> 'b timeRepresentation \<Rightarrow> 'b timeRepresentation" where
  "operator_plus_assign S T rhs =
     T \<lparr> timecode := op_plus (baseType S) (timecode T) (timecode rhs) \<rparr>"

definition operator_minus_assign ::
  "'b Tconv \<Rightarrow> 'b timeRepresentation \<Rightarrow> 'b timeRepresentation \<Rightarrow> 'b timeRepresentation" where
  "operator_minus_assign S T rhs =
     T \<lparr> timecode := op_minus (baseType S) (timecode T) (timecode rhs) \<rparr>"

definition operator_times_assign_int ::
  "'b Tconv \<Rightarrow> 'b timeRepresentation \<Rightarrow> int32 \<Rightarrow> 'b timeRepresentation" where
  "operator_times_assign_int S T m =
     T \<lparr> timecode := op_times_int (baseType S) (timecode T) m \<rparr>"

definition operator_times_assign_double ::
  "'b Tconv \<Rightarrow> 'b timeRepresentation \<Rightarrow> double \<Rightarrow> 'b timeRepresentation option" where
  "operator_times_assign_double S T m =
     (case timeRepresentation_double S (double_mult (toDouble S (timecode T)) m) of
        None \<Rightarrow> None
      | Some nt \<Rightarrow> Some (T \<lparr> timecode := timecode nt \<rparr>))"

definition operator_divide_assign_int ::
  "'b Tconv \<Rightarrow> 'b timeRepresentation \<Rightarrow> int32 \<Rightarrow> 'b timeRepresentation option" where
  "operator_divide_assign_int S T d =
     (case op_divide_int (baseType S) (timecode T) d of
        None \<Rightarrow> None
      | Some q \<Rightarrow> Some (T \<lparr> timecode := q \<rparr>))"

definition operator_divide_assign_double ::
  "'b Tconv \<Rightarrow> 'b timeRepresentation \<Rightarrow> double \<Rightarrow> 'b timeRepresentation option" where
  "operator_divide_assign_double S T d =
     (case double_div (toDouble S (timecode T)) d of
        None \<Rightarrow> None
      | Some q \<Rightarrow>
          (case timeRepresentation_double S q of
             None \<Rightarrow> None
           | Some nt \<Rightarrow> Some (T \<lparr> timecode := timecode nt \<rparr>)))"

text \<open>
  \<^verbatim>\<open>operator%\<close> and \<^verbatim>\<open>operator%=\<close> choose between the two branches with a plain \<^verbatim>\<open>if\<close> on
  \<^verbatim>\<open>std::is_integral<baseType>::value\<close>, so both branches are compiled for every base type:
  with the base type \<^verbatim>\<open>double\<close> the first branch applies \<^verbatim>\<open>%\<close> to two doubles and the
  operator cannot be instantiated.  The second branch is written out as the source has it.
\<close>

definition operator_modulo ::
  "'b Tconv \<Rightarrow> 'b timeRepresentation \<Rightarrow> 'b timeRepresentation \<Rightarrow> 'b timeRepresentation option" where
  "operator_modulo S T other =
     (if is_integral (baseType S)
      then (case op_modulo (baseType S) (timecode T) (timecode other) of
              None \<Rightarrow> None
            | Some r \<Rightarrow> Some \<lparr> timecode = r \<rparr>)
      else (case fmod (toDouble S (timecode T)) (toDouble S (timecode other)) of
              None \<Rightarrow> None
            | Some r \<Rightarrow>
                (case convert S r of
                   None \<Rightarrow> None
                 | Some c \<Rightarrow> Some \<lparr> timecode = c \<rparr>)))"

definition operator_modulo_assign ::
  "'b Tconv \<Rightarrow> 'b timeRepresentation \<Rightarrow> 'b timeRepresentation \<Rightarrow> 'b timeRepresentation option" where
  "operator_modulo_assign S T other =
     (if is_integral (baseType S)
      then (case op_modulo (baseType S) (timecode T) (timecode other) of
              None \<Rightarrow> None
            | Some r \<Rightarrow> Some (T \<lparr> timecode := r \<rparr>))
      else (case fmod (toDouble S (timecode T)) (toDouble S (timecode other)) of
              None \<Rightarrow> None
            | Some r \<Rightarrow>
                (case convert S r of
                   None \<Rightarrow> None
                 | Some c \<Rightarrow> Some (T \<lparr> timecode := c \<rparr>))))"

definition operator_plus ::
  "'b Tconv \<Rightarrow> 'b timeRepresentation \<Rightarrow> 'b timeRepresentation \<Rightarrow> 'b timeRepresentation" where
  "operator_plus S T other =
     \<lparr> timecode = op_plus (baseType S) (timecode T) (timecode other) \<rparr>"

definition operator_minus ::
  "'b Tconv \<Rightarrow> 'b timeRepresentation \<Rightarrow> 'b timeRepresentation \<Rightarrow> 'b timeRepresentation" where
  "operator_minus S T other =
     \<lparr> timecode = op_minus (baseType S) (timecode T) (timecode other) \<rparr>"

definition operator_times_int ::
  "'b Tconv \<Rightarrow> 'b timeRepresentation \<Rightarrow> int32 \<Rightarrow> 'b timeRepresentation" where
  "operator_times_int S T m = \<lparr> timecode = op_times_int (baseType S) (timecode T) m \<rparr>"

definition operator_times_double ::
  "'b Tconv \<Rightarrow> 'b timeRepresentation \<Rightarrow> double \<Rightarrow> 'b timeRepresentation option" where
  "operator_times_double S T m =
     timeRepresentation_double S (double_mult (toDouble S (timecode T)) m)"

definition operator_divide_int ::
  "'b Tconv \<Rightarrow> 'b timeRepresentation \<Rightarrow> int32 \<Rightarrow> 'b timeRepresentation option" where
  "operator_divide_int S T d =
     (case op_divide_int (baseType S) (timecode T) d of
        None \<Rightarrow> None
      | Some q \<Rightarrow> Some \<lparr> timecode = q \<rparr>)"

definition operator_divide_double ::
  "'b Tconv \<Rightarrow> 'b timeRepresentation \<Rightarrow> double \<Rightarrow> 'b timeRepresentation option" where
  "operator_divide_double S T d =
     (case double_div (toDouble S (timecode T)) d of
        None \<Rightarrow> None
      | Some q \<Rightarrow> timeRepresentation_double S q)"

subsection \<open>Comparison of two time values\<close>

definition operator_eq :: "'b Tconv \<Rightarrow> 'b timeRepresentation \<Rightarrow> 'b timeRepresentation \<Rightarrow> bool" where
  "operator_eq S T rhs = (timecode T = timecode rhs)"

definition operator_ne :: "'b Tconv \<Rightarrow> 'b timeRepresentation \<Rightarrow> 'b timeRepresentation \<Rightarrow> bool" where
  "operator_ne S T rhs = (timecode T \<noteq> timecode rhs)"

definition operator_gt :: "'b Tconv \<Rightarrow> 'b timeRepresentation \<Rightarrow> 'b timeRepresentation \<Rightarrow> bool" where
  "operator_gt S T rhs = op_less (baseType S) (timecode rhs) (timecode T)"

definition operator_lt :: "'b Tconv \<Rightarrow> 'b timeRepresentation \<Rightarrow> 'b timeRepresentation \<Rightarrow> bool" where
  "operator_lt S T rhs = op_less (baseType S) (timecode T) (timecode rhs)"

definition operator_ge :: "'b Tconv \<Rightarrow> 'b timeRepresentation \<Rightarrow> 'b timeRepresentation \<Rightarrow> bool" where
  "operator_ge S T rhs = op_less_equal (baseType S) (timecode rhs) (timecode T)"

definition operator_le :: "'b Tconv \<Rightarrow> 'b timeRepresentation \<Rightarrow> 'b timeRepresentation \<Rightarrow> bool" where
  "operator_le S T rhs = op_less_equal (baseType S) (timecode T) (timecode rhs)"

subsection \<open>The free operators\<close>

definition double_divide_time :: "'b Tconv \<Rightarrow> double \<Rightarrow> 'b timeRepresentation \<Rightarrow> double option" where
  "double_divide_time S x t = double_div x (operator_double S t)"

definition double_times_time :: "'b Tconv \<Rightarrow> double \<Rightarrow> 'b timeRepresentation \<Rightarrow> double" where
  "double_times_time S x t = double_mult x (operator_double S t)"

definition time_divide_time ::
  "'b Tconv \<Rightarrow> 'b timeRepresentation \<Rightarrow> 'b timeRepresentation \<Rightarrow> double option" where
  "time_divide_time S t1 t2 = double_div (operator_double S t1) (operator_double S t2)"

text \<open>
  The mixed comparisons construct a time value from the double and compare the two time
  values.  \<open>compare_time_double\<close> is the shape of the six operators with the double on the
  right, \<open>compare_double_time\<close> of the six with the double on the left.
\<close>

definition compare_time_double ::
  "('b Tconv \<Rightarrow> 'b timeRepresentation \<Rightarrow> 'b timeRepresentation \<Rightarrow> bool) \<Rightarrow>
   'b Tconv \<Rightarrow> 'b timeRepresentation \<Rightarrow> double \<Rightarrow> bool option" where
  "compare_time_double cmp S t1 rhs =
     (case timeRepresentation_double S rhs of
        None \<Rightarrow> None
      | Some r \<Rightarrow> Some (cmp S t1 r))"

definition compare_double_time ::
  "('b Tconv \<Rightarrow> 'b timeRepresentation \<Rightarrow> 'b timeRepresentation \<Rightarrow> bool) \<Rightarrow>
   'b Tconv \<Rightarrow> double \<Rightarrow> 'b timeRepresentation \<Rightarrow> bool option" where
  "compare_double_time cmp S lhs t1 =
     (case timeRepresentation_double S lhs of
        None \<Rightarrow> None
      | Some l \<Rightarrow> Some (cmp S l t1))"

definition eq_time_double :: "'b Tconv \<Rightarrow> 'b timeRepresentation \<Rightarrow> double \<Rightarrow> bool option" where
  "eq_time_double = compare_time_double operator_eq"

definition ne_time_double :: "'b Tconv \<Rightarrow> 'b timeRepresentation \<Rightarrow> double \<Rightarrow> bool option" where
  "ne_time_double = compare_time_double operator_ne"

definition gt_time_double :: "'b Tconv \<Rightarrow> 'b timeRepresentation \<Rightarrow> double \<Rightarrow> bool option" where
  "gt_time_double = compare_time_double operator_gt"

definition lt_time_double :: "'b Tconv \<Rightarrow> 'b timeRepresentation \<Rightarrow> double \<Rightarrow> bool option" where
  "lt_time_double = compare_time_double operator_lt"

definition ge_time_double :: "'b Tconv \<Rightarrow> 'b timeRepresentation \<Rightarrow> double \<Rightarrow> bool option" where
  "ge_time_double = compare_time_double operator_ge"

definition le_time_double :: "'b Tconv \<Rightarrow> 'b timeRepresentation \<Rightarrow> double \<Rightarrow> bool option" where
  "le_time_double = compare_time_double operator_le"

definition eq_double_time :: "'b Tconv \<Rightarrow> double \<Rightarrow> 'b timeRepresentation \<Rightarrow> bool option" where
  "eq_double_time = compare_double_time operator_eq"

definition ne_double_time :: "'b Tconv \<Rightarrow> double \<Rightarrow> 'b timeRepresentation \<Rightarrow> bool option" where
  "ne_double_time = compare_double_time operator_ne"

definition gt_double_time :: "'b Tconv \<Rightarrow> double \<Rightarrow> 'b timeRepresentation \<Rightarrow> bool option" where
  "gt_double_time = compare_double_time operator_gt"

definition lt_double_time :: "'b Tconv \<Rightarrow> double \<Rightarrow> 'b timeRepresentation \<Rightarrow> bool option" where
  "lt_double_time = compare_double_time operator_lt"

definition ge_double_time :: "'b Tconv \<Rightarrow> double \<Rightarrow> 'b timeRepresentation \<Rightarrow> bool option" where
  "ge_double_time = compare_double_time operator_ge"

definition le_double_time :: "'b Tconv \<Rightarrow> double \<Rightarrow> 'b timeRepresentation \<Rightarrow> bool option" where
  "le_double_time = compare_double_time operator_le"

section \<open>The collector's trigger\<close>

text \<open>
  The time fields of \<^verbatim>\<open>collector\<close>.  \<^verbatim>\<open>coreTime\<close> is a \<^verbatim>\<open>timeRepresentation\<close> of the
  strategy chosen by the build, which is a parameter here.  The sampling at the start of
  \<^verbatim>\<open>trigger\<close> writes only the data columns and is left out; the returned code is always
  \<^verbatim>\<open>no_change\<close>.
\<close>

record 'b collector =
  timePeriod :: "'b timeRepresentation"
  reqPeriod :: "'b timeRepresentation"
  startTime :: "'b timeRepresentation"
  stopTime :: "'b timeRepresentation"
  triggerTime :: "'b timeRepresentation"
  lastTriggerTime :: "'b timeRepresentation"

text \<open>
  Modelled from the spec: the constant \<^verbatim>\<open>maxTime\<close> is declared outside the source; the
  spec calls it the maximum time sentinel, which is the factory \<^verbatim>\<open>maxVal ()\<close>.
\<close>

definition maxTime :: "'b Tconv \<Rightarrow> 'b timeRepresentation" where
  "maxTime S = timeRepresentation_maxVal S"

text \<open>
  The loop \<^verbatim>\<open>while (time >= triggerTime)\<close>, on the trigger time and the counter.  It
  need not end, so its result is optional.  The counter is an \<^verbatim>\<open>int\<close> that only counts
  up from zero and is compared with 5; it is an unbounded integer here.
\<close>

partial_function (option) trigger_loop ::
  "'b Tconv \<Rightarrow> 'b timeRepresentation \<Rightarrow> 'b timeRepresentation \<Rightarrow> 'b timeRepresentation \<Rightarrow> int
     \<Rightarrow> 'b timeRepresentation option" where
  "trigger_loop S time period trig cnt =
     (if operator_ge S time trig
      then trigger_loop S time period
             (if cnt + 1 > 5 then operator_plus S time period
              else operator_plus_assign S trig period)
             (cnt + 1)
      else Some trig)"

definition trigger :: "'b Tconv \<Rightarrow> 'b collector \<Rightarrow> 'b timeRepresentation \<Rightarrow> 'b collector option" where
  "trigger S c time =
     (case trigger_loop S time (timePeriod c) (triggerTime c) 0 of
        None \<Rightarrow> None
      | Some trig \<Rightarrow>
          Some (c \<lparr> lastTriggerTime := time,
                    triggerTime := (if operator_gt S trig (stopTime c) then maxTime S else trig) \<rparr>))"

section \<open>Facts about the rounding\<close>

lemma round_half_even_of_int: "round_half_even (real_of_int k) = k"
  by (simp add: round_half_even_def)

lemma ilog2_of_int_mult:
  assumes "0 < m"
  shows "ilog2 (real_of_int m * 2 ^ n) = bitlen m + int n - 1"
proof -
  define y where "y = m * 2 ^ n"
  have "(1 :: int) * 1 \<le> m * 2 ^ n"
    using assms by (intro mult_mono) simp_all
  then have "1 \<le> real_of_int y"
    unfolding y_def by linarith
  then have "ilog2 (real_of_int y) = bitlen y - 1"
    by (simp add: ilog2_def)
  moreover have "bitlen y = bitlen m + int n"
    unfolding y_def using assms by (rule bitlen_pow2)
  moreover have "real_of_int y = real_of_int m * 2 ^ n"
    by (simp add: y_def)
  ultimately show ?thesis by simp
qed

lemma bitlen_le_53:
  assumes "0 < m" and "m < 2 ^ 53"
  shows "bitlen m \<le> 53"
proof (rule ccontr)
  assume "\<not> bitlen m \<le> 53"
  then have "(2 :: int) ^ 53 \<le> 2 ^ nat (bitlen m - 1)"
    by (intro power_increasing) simp_all
  also have "\<dots> \<le> m"
    using bitlen_bounds [OF assms(1)] by simp
  finally show False using assms(2) by simp
qed

lemma round_double_representable:
  assumes "\<bar>m\<bar> < 2 ^ 53"
  shows "round_double (real_of_int m * 2 ^ n) = real_of_int m * 2 ^ n"
proof (cases "m = 0")
  case True
  then show ?thesis by (simp add: round_double_def)
next
  case False
  let ?x = "real_of_int m * 2 ^ n"
  define j where "j = nat (53 - bitlen \<bar>m\<bar>)"
  from False have m: "0 < \<bar>m\<bar>" by simp
  have b: "bitlen \<bar>m\<bar> \<le> 53" using m assms by (rule bitlen_le_53)
  have nz: "?x \<noteq> 0" using False by simp
  have "\<bar>?x\<bar> = real_of_int \<bar>m\<bar> * 2 ^ n"
    by (simp add: abs_mult)
  then have e: "ulp_exponent ?x = int n - int j"
    using b ilog2_of_int_mult [OF m, of n] bitlen_nonneg [of "\<bar>m\<bar>"]
    by (simp add: ulp_exponent_def j_def)
  have split: "(2 :: real) ^ n = 2 powi (int n - int j) * 2 ^ j"
    by (simp add: power_int_diff)
  then have q: "?x / 2 powi (int n - int j) = real_of_int (m * 2 ^ j)"
    by simp
  have "round_double ?x = real_of_int (m * 2 ^ j) * 2 powi (int n - int j)"
    using nz unfolding round_double_def e q round_half_even_of_int by simp
  also have "\<dots> = ?x"
    using split by simp
  finally show ?thesis .
qed

lemma round_double_of_int:
  "\<bar>k\<bar> < 2 ^ 53 \<Longrightarrow> round_double (real_of_int k) = real_of_int k"
  using round_double_representable [of k 0] by simp

lemma round_double_zero: "round_double 0 = 0"
  by (simp add: round_double_def)

lemma pow2_eq: "pow2 N = 2 ^ N"
proof (induction N)
  case 0
  show ?case by simp
next
  case (Suc N)
  have "round_double (real_of_int 1 * 2 ^ Suc N) = real_of_int 1 * 2 ^ Suc N"
    by (rule round_double_representable) simp
  with Suc show ?case by (simp add: double_mult_def)
qed

lemma static_cast_double_exact:
  "\<bar>sint v\<bar> < 2 ^ 53 \<Longrightarrow> static_cast_double v = real_of_int (sint v)"
  using round_double_of_int [of "sint v"] by (simp add: static_cast_double_def)

lemma static_cast_int64_of_int:
  "- (2 ^ 63) \<le> k \<Longrightarrow> k < 2 ^ 63 \<Longrightarrow> static_cast_int64 (real_of_int k) = Some (word_of_int k)"
  by (simp add: static_cast_int64_def trunc_def)

section \<open>Facts about the base types\<close>

lemma sint_word_of_int_64:
  "- (2 ^ 63) \<le> z \<Longrightarrow> z < 2 ^ 63 \<Longrightarrow> sint (word_of_int z :: int64) = z"
  by (simp add: sint_sbintrunc' signed_take_bit_int_eq_self)

lemma sint_scast_32_64: "sint (scast (d :: int32) :: int64) = sint d"
  by (rule sint_up_scast) (simp add: is_up)

lemma sint_64_bounds: "- (2 ^ 63) \<le> sint (w :: int64) \<and> sint w < 2 ^ 63"
  using sint_ge [of w] sint_lt [of w] by simp

lemma sint_INT64_MIN: "sint INT64_MIN = - (2 ^ 63)"
  by (simp add: INT64_MIN_def)

lemma sint_INT64_MAX: "sint INT64_MAX = 2 ^ 63 - 1"
  by (simp add: INT64_MAX_def)

lemma nat_less_16_cases:
  "N < 16 \<Longrightarrow> N = 0 \<or> N = 1 \<or> N = 2 \<or> N = 3 \<or> N = 4 \<or> N = 5 \<or> N = 6 \<or> N = 7 \<or> N = 8
     \<or> N = 9 \<or> N = 10 \<or> N = 11 \<or> N = 12 \<or> N = 13 \<or> N = 14 \<or> N = (15 :: nat)"
  by arith

lemma fac10f_nth: "N < 16 \<Longrightarrow> fac10f ! N = 10 ^ N"
  by (drule nat_less_16_cases) (auto simp: fac10f_def)

lemma sint_fac10_nth: "N < 16 \<Longrightarrow> sint (fac10 ! N) = 10 ^ N"
  by (drule nat_less_16_cases) (auto simp: fac10_def)

lemma int64_sdiv_1: "int64_sdiv val 1 = val"
  by (simp add: int64_sdiv_def)

lemma count_time_convert_eq:
  "N < 16 \<Longrightarrow> count_time_convert N t =
     (if - 1000000000000 < t then static_cast_int64 (double_mult t (10 ^ N))
      else Some INT64_MIN)"
  by (simp add: count_time_convert_def dFactor_def fac10f_nth)

lemma int64_eq_iff_sint: "(a :: int64) = b \<longleftrightarrow> sint a = sint b"
  by (rule word_eq_iff_signed)

lemma sint_int64_sdiv:
  assumes "b \<noteq> 0" and "\<not> (a = INT64_MIN \<and> b = - 1)"
  shows "sint (int64_sdiv a b) = sint a sdiv sint b"
proof -
  let ?q = "sint a sdiv sint b"
  have range: "- \<bar>sint a\<bar> \<le> ?q \<and> ?q \<le> \<bar>sint a\<bar>"
    using sdiv_int_range [of "sint a" "sint b"] by simp
  have bounds: "- (2 ^ 63) \<le> sint a \<and> sint a < 2 ^ 63"
    by (rule sint_64_bounds)
  have lo: "- (2 ^ 63) \<le> ?q"
    using range bounds by linarith
  have hi: "?q < 2 ^ 63"
  proof (rule ccontr)
    assume "\<not> ?q < 2 ^ 63"
    with range bounds have q: "?q = - sint a" and a: "sint a = - (2 ^ 63)"
      by linarith+
    from a have "sint a \<noteq> 0" by simp
    with q have "sint b = - 1" by simp
    then have "b = - 1"
      by (simp add: int64_eq_iff_sint)
    moreover from a have "a = INT64_MIN"
      by (simp add: int64_eq_iff_sint sint_INT64_MIN)
    ultimately show False using assms(2) by simp
  qed
  from lo hi show ?thesis
    by (simp add: int64_sdiv_def sint_word_of_int_64)
qed

lemma sint_int64_smod:
  assumes "b \<noteq> 0"
  shows "sint (int64_smod a b) = sint a smod sint b"
proof -
  let ?r = "sint a smod sint b"
  from assms have "sint b \<noteq> 0"
    by (simp add: int64_eq_iff_sint)
  then have "- \<bar>sint b\<bar> + 1 \<le> ?r \<and> ?r \<le> \<bar>sint b\<bar> - 1"
    using smod_int_range [of "sint b" "sint a"] by simp
  moreover have "- (2 ^ 63) \<le> sint b \<and> sint b < 2 ^ 63"
    by (rule sint_64_bounds)
  ultimately have "- (2 ^ 63) \<le> ?r \<and> ?r < 2 ^ 63"
    by linarith
  then show ?thesis
    by (simp add: int64_smod_def sint_word_of_int_64)
qed

lemma int32_eq_iff_sint: "(d :: int32) = e \<longleftrightarrow> sint d = sint e"
  by (rule word_eq_iff_signed)

lemma scast_32_64_eq_iff: "(scast (d :: int32) :: int64) = scast e \<longleftrightarrow> d = e"
  by (simp add: int64_eq_iff_sint sint_scast_32_64 int32_eq_iff_sint)

lemma scast_32_64_zero: "(scast (d :: int32) :: int64) = 0 \<longleftrightarrow> d = 0"
  using scast_32_64_eq_iff [of d 0] by simp

lemma scast_32_64_minus_one: "(scast (d :: int32) :: int64) = - 1 \<longleftrightarrow> d = - 1"
  using scast_32_64_eq_iff [of d "- 1"] by simp

lemma integer_strategy_ops:
  "S = integer_time N \<or> S = count_time N \<Longrightarrow>
     baseType S = int64_ops \<and> maxVal S = INT64_MAX \<and> minVal S = INT64_MIN \<and> zeroVal S = 0
     \<and> epsilon S = 1"
  by (auto simp: integer_time_def count_time_def)

lemma int64_rem_sint:
  "int64_rem a b = Some r \<Longrightarrow> sint r = sint a smod sint b"
  by (auto simp: int64_rem_def sint_int64_smod split: if_splits)

lemma trunc_of_int: "trunc (real_of_int k) = k"
  by (simp add: trunc_def)

lemma iFactor_nonzero:
  assumes "N < 16"
  shows "iFactor N \<noteq> 0 \<and> iFactor N \<noteq> - 1"
proof -
  have "0 < sint (iFactor N)"
    using assms by (simp add: iFactor_def sint_fac10_nth)
  then show ?thesis by auto
qed

lemma count_time_fields:
  "convert (count_time N) = count_time_convert N"
  "toDouble (count_time N) = count_time_toDouble N"
  by (simp_all add: count_time_def)

lemma count_time_from_five:
  assumes "N < 16"
  shows "timeRepresentation_double (count_time N) 5 = Some \<lparr> timecode = word_of_int (5 * 10 ^ N) \<rparr>"
proof -
  have "(10 :: int) ^ N \<le> 10 ^ 15"
    using assms by (intro power_increasing) simp_all
  moreover have "(0 :: int) \<le> 10 ^ N"
    by simp
  ultimately have range: "- (2 ^ 63) \<le> (5 :: int) * 10 ^ N" "(5 :: int) * 10 ^ N < 2 ^ 63"
    and small: "\<bar>(5 :: int) * 10 ^ N\<bar> < 2 ^ 53"
    by (simp_all; linarith)+
  have "double_mult 5 (10 ^ N) = round_double (real_of_int (5 * 10 ^ N))"
    by (simp add: double_mult_def)
  also have "\<dots> = real_of_int (5 * 10 ^ N)"
    using small by (rule round_double_of_int)
  finally have "static_cast_int64 (double_mult 5 (10 ^ N)) = Some (word_of_int (5 * 10 ^ N))"
    using range by (simp only: static_cast_int64_of_int)
  with assms show ?thesis
    by (simp add: timeRepresentation_double_def count_time_fields count_time_convert_eq)
qed

lemma integer_time_from_five:
  assumes "N \<le> 60"
  shows "timeRepresentation_double (integer_time N) 5 = Some \<lparr> timecode = INT64_MIN \<rparr>"
proof -
  have "(2 :: int) ^ N \<le> 2 ^ 60"
    using assms by (intro power_increasing) simp_all
  moreover have "(0 :: int) \<le> 2 ^ N"
    by simp
  ultimately have range: "- (2 ^ 63) \<le> (5 :: int) * 2 ^ N" "(5 :: int) * 2 ^ N < 2 ^ 63"
    by (simp_all; linarith)+
  define w :: int64 where "w = word_of_int (5 * 2 ^ N)"
  define x :: real where "x = real_of_int (5 * 2 ^ N)"
  have "round_double (real_of_int 5 * 2 ^ N) = real_of_int 5 * 2 ^ N"
    by (rule round_double_representable) simp
  then have m: "double_mult 5 (multiplier N) = x"
    by (simp add: double_mult_def multiplier_def pow2_eq x_def)
  have c: "static_cast_int64 x = Some w"
    unfolding x_def w_def using range by (rule static_cast_int64_of_int)
  have "sint w = 5 * 2 ^ N"
    unfolding w_def using range by (rule sint_word_of_int_64)
  then have "static_cast_double w = round_double (real_of_int 5 * 2 ^ N)"
    by (simp add: static_cast_double_def)
  also have "\<dots> = x"
    unfolding x_def by (subst round_double_representable) simp_all
  finally have d: "static_cast_double w = x" .
  have z: "static_cast_int64 0 = Some 0"
    by (simp add: static_cast_int64_def trunc_def)
  have s: "double_sub x x = 0" "double_mult 0 (multiplier N) = 0"
    by (simp_all add: double_sub_def double_mult_def round_double_zero)
  have "integer_time_nseconds N 5 = Some (push_bit N w)"
    by (simp add: integer_time_nseconds_def m c d z s)
  then show ?thesis
    by (simp add: timeRepresentation_double_def integer_time_def integer_time_convert_def)
qed

section \<open>Facts about the comparisons\<close>

lemmas mixed_comparison_defs =
  eq_time_double_def ne_time_double_def gt_time_double_def lt_time_double_def
  ge_time_double_def le_time_double_def eq_double_time_def ne_double_time_def
  gt_double_time_def lt_double_time_def ge_double_time_def le_double_time_def
  compare_time_double_def compare_double_time_def

lemmas comparison_defs =
  operator_eq_def operator_ne_def operator_gt_def operator_lt_def operator_ge_def
  operator_le_def

lemma compares_equal:
  assumes "timeRepresentation_double S x = Some T"
    and "\<not> op_less (baseType S) (timecode T) (timecode T)"
    and "op_less_equal (baseType S) (timecode T) (timecode T)"
  shows "eq_time_double S T x = Some True \<and> eq_double_time S x T = Some True
       \<and> ne_time_double S T x = Some False \<and> ne_double_time S x T = Some False
       \<and> lt_time_double S T x = Some False \<and> lt_double_time S x T = Some False
       \<and> gt_time_double S T x = Some False \<and> gt_double_time S x T = Some False
       \<and> le_time_double S T x = Some True \<and> le_double_time S x T = Some True
       \<and> ge_time_double S T x = Some True \<and> ge_double_time S x T = Some True"
  using assms by (simp add: mixed_comparison_defs comparison_defs)

section \<open>Facts about the trigger loop\<close>

lemma word_sless_plus_64:
  "0 < sint (p :: int64) \<Longrightarrow> sint a + sint p < 2 ^ 63 \<Longrightarrow> word_sless a (a + p)"
proof -
  assume p: "0 < sint p" and b: "sint a + sint p < 2 ^ 63"
  have "- (2 ^ 63) \<le> sint a + sint p"
    using sint_64_bounds [of a] p by linarith
  then have "sint (a + p) = sint a + sint p"
    using b by (simp add: sint_word_ariths signed_take_bit_int_eq_self)
  then show ?thesis
    using p by (simp add: word_sless_alt)
qed

lemma trigger_loop_result_aux:
  assumes "trigger_loop S time period trig cnt = Some r"
  shows "baseType S = int64_ops \<longrightarrow> operator_gt S r time"
proof (rule trigger_loop.raw_induct
    [where P = "\<lambda>S time period trig cnt r. baseType S = int64_ops \<longrightarrow> operator_gt S r time",
      OF _ assms])
  fix loop :: "int64 Tconv \<Rightarrow> int64 timeRepresentation \<Rightarrow> int64 timeRepresentation \<Rightarrow>
      int64 timeRepresentation \<Rightarrow> int \<Rightarrow> int64 timeRepresentation option"
  fix S time period trig cnt r
  assume IH: "\<And>S time period trig cnt r. loop S time period trig cnt = Some r \<Longrightarrow>
      baseType S = int64_ops \<longrightarrow> operator_gt S r time"
  assume step: "(if operator_ge S time trig
      then loop S time period
             (if 5 < cnt + 1 then operator_plus S time period
              else operator_plus_assign S trig period)
             (cnt + 1)
      else Some trig) = Some r"
  show "baseType S = int64_ops \<longrightarrow> operator_gt S r time"
  proof (cases "operator_ge S time trig")
    case True
    with step show ?thesis by (simp add: IH)
  next
    case False
    with step have r: "r = trig" by simp
    show ?thesis
    proof
      assume ops: "baseType S = int64_ops"
      from False r show "operator_gt S r time"
        by (simp add: operator_ge_def operator_gt_def ops int64_ops_def signed.not_le)
    qed
  qed
qed

lemma trigger_loop_result:
  assumes "trigger_loop S time period trig cnt = Some r" and "baseType S = int64_ops"
  shows "operator_gt S r time"
  using trigger_loop_result_aux [OF assms(1)] assms(2) by simp

lemma trigger_loop_late:
  assumes "baseType S = int64_ops" and "5 \<le> cnt"
    and "operator_gt S (operator_plus S time period) time"
  shows "\<exists>r. trigger_loop S time period trig cnt = Some r"
proof (cases "operator_ge S time trig")
  case True
  have "\<not> operator_ge S time (operator_plus S time period)"
    using assms(1,3) by (simp add: operator_ge_def operator_gt_def int64_ops_def signed.not_le)
  then have "trigger_loop S time period (operator_plus S time period) (cnt + 1)
      = Some (operator_plus S time period)"
    by (subst trigger_loop.simps) simp
  with True assms(2) show ?thesis
    by (subst trigger_loop.simps) simp
next
  case False
  then show ?thesis
    by (subst trigger_loop.simps) simp
qed

lemma trigger_loop_returns:
  assumes "baseType S = int64_ops"
    and "operator_gt S (operator_plus S time period) time"
  shows "\<exists>r. trigger_loop S time period trig cnt = Some r"
proof (induction "nat (5 - cnt)" arbitrary: trig cnt)
  case 0
  then have "5 \<le> cnt" by simp
  then show ?case
    using trigger_loop_late [OF assms(1) _ assms(2)] by blast
next
  case (Suc k)
  then have k: "k = nat (5 - (cnt + 1))" by simp
  show ?case
  proof (cases "operator_ge S time trig")
    case True
    from Suc(1) [OF k] obtain r where
      "trigger_loop S time period
         (if cnt + 1 > 5 then operator_plus S time period
          else operator_plus_assign S trig period) (cnt + 1) = Some r"
      by blast
    with True show ?thesis
      by (subst trigger_loop.simps) simp
  next
    case False
    then show ?thesis
      by (subst trigger_loop.simps) simp
  qed
qed

section \<open>Conversion from seconds\<close>

text \<open>
  C1.  The claim wants \<^verbatim>\<open>integer_time<N>::convert\<close> to return the reassembled value above
  \<open>-1e12\<close> and the minimum sentinel at or below it.  The selection in the code is the
  other way round: at \<open>t = 1\<close> with \<open>N = 4\<close> the reassembled value is 256 and the result is
  the minimum sentinel, and at \<open>t = -2e12\<close> the result is the reassembled value.
\<close>

theorem integer_time_convert_inverted:
  "integer_time_nseconds 4 1 = Some 256
   \<and> convert (integer_time 4) 1 = Some (minVal (integer_time 4))
   \<and> minVal (integer_time 4) = INT64_MIN
   \<and> integer_time_nseconds 4 (- 2000000000000) = Some (- 512000000000000)
   \<and> convert (integer_time 4) (- 2000000000000) = Some (- 512000000000000)"
  by (simp add: integer_time_def integer_time_convert_def integer_time_nseconds_def
      multiplier_def pow2_eq static_cast_int64_def trunc_def static_cast_double_def
      double_mult_def double_sub_def round_double_zero
      round_double_of_int [of 16, simplified] round_double_of_int [of 256, simplified]
      round_double_of_int [of "- 32000000000000", simplified])

text \<open>
  The claim C2 as it is written fails: \<^verbatim>\<open>count_time<0>::convert (0.75)\<close> is 0, the
  truncation, where rounding gives 1; and the product \<open>2^70\<close> has no 64-bit value.
\<close>

theorem count_time_convert_not_round:
  "count_time_convert 0 (3 / 4) = Some 0 \<and> round (3 / 4 * (10 :: real) ^ 0) = 1
   \<and> count_time_convert 0 (2 ^ 70) = None"
proof -
  have "count_time_convert 0 (3 / 4) = Some 0"
    by code_simp
  moreover have "round (3 / 4 * (10 :: real) ^ 0) = 1"
    by (simp add: round_def)
  moreover have "count_time_convert 0 (2 ^ 70) = None"
    by code_simp
  ultimately show ?thesis by simp
qed

text \<open>
  C2, amended.  For \<open>N < 16\<close>, \<^verbatim>\<open>count_time<N>::convert (t)\<close> is the double product
  \<open>t * 10^N\<close> (the exact product rounded to the nearest double, as the multiplication
  gives it) truncated towards zero, for every \<open>t\<close> above \<open>-1e12\<close> whose truncated product
  is a 64-bit value; it has no value when the product does not fit; and it is the
  minimum sentinel for every \<open>t\<close> at or below \<open>-1e12\<close>.  So the double nearest to 0.7
  gives 7 with one digit, the double nearest to 1.000000002 gives 1000000002 with nine
  digits, and 1.25 gives 1250 with three.
\<close>

theorem count_time_convert_truncates:
  assumes "N < 16"
  shows "(- (10 ^ 12) < t \<and> - (2 ^ 63) \<le> trunc (double_mult t (10 ^ N))
            \<and> trunc (double_mult t (10 ^ N)) < 2 ^ 63 \<longrightarrow>
            (\<exists>w. convert (count_time N) t = Some w \<and> sint w = trunc (double_mult t (10 ^ N))))
       \<and> (- (10 ^ 12) < t \<and> \<not> (- (2 ^ 63) \<le> trunc (double_mult t (10 ^ N))
            \<and> trunc (double_mult t (10 ^ N)) < 2 ^ 63) \<longrightarrow>
            convert (count_time N) t = None)
       \<and> (t \<le> - (10 ^ 12) \<longrightarrow> convert (count_time N) t = Some (minVal (count_time N)))
       \<and> double_mult t (10 ^ N) = round_double (t * 10 ^ N)
       \<and> convert (count_time 1) (3152519739159347 / 4503599627370496) = Some 7
       \<and> round_double (7 / 10) = 3152519739159347 / 4503599627370496
       \<and> convert (count_time 9) (4503599636377695 / 4503599627370496) = Some 1000000002
       \<and> round_double (1000000002 / 1000000000) = 4503599636377695 / 4503599627370496
       \<and> convert (count_time 3) (5 / 4) = Some 1250"
proof -
  have 1: "\<exists>w. convert (count_time N) t = Some w \<and> sint w = trunc (double_mult t (10 ^ N))"
    if "- (10 ^ 12) < t" and "- (2 ^ 63) \<le> trunc (double_mult t (10 ^ N))"
      and "trunc (double_mult t (10 ^ N)) < 2 ^ 63"
    using assms that
    by (simp add: count_time_fields count_time_convert_eq static_cast_int64_def
        sint_word_of_int_64)
  have 2: "convert (count_time N) t = None"
    if "- (10 ^ 12) < t" and "\<not> (- (2 ^ 63) \<le> trunc (double_mult t (10 ^ N))
      \<and> trunc (double_mult t (10 ^ N)) < 2 ^ 63)"
    using assms that
    by (simp add: count_time_fields count_time_convert_eq static_cast_int64_def)
  have 3: "convert (count_time N) t = Some (minVal (count_time N))" if "t \<le> - (10 ^ 12)"
    using assms that by (simp add: count_time_def count_time_convert_eq)
  have 4: "double_mult t (10 ^ N) = round_double (t * 10 ^ N)"
    by (simp add: double_mult_def)
  have 5: "convert (count_time 1) (3152519739159347 / 4503599627370496) = Some 7"
    by code_simp
  have 6: "round_double (7 / 10) = 3152519739159347 / 4503599627370496"
    by code_simp
  have 7: "convert (count_time 9) (4503599636377695 / 4503599627370496) = Some 1000000002"
    by code_simp
  have 8: "round_double (1000000002 / 1000000000) = 4503599636377695 / 4503599627370496"
    by code_simp
  have 9: "convert (count_time 3) (5 / 4) = Some 1250"
    by code_simp
  from 1 2 3 4 5 6 7 8 9 show ?thesis
    by blast
qed

theorem count_time_convert_truncates_witness:
  "(\<exists>w. convert (count_time 3) (5 / 4) = Some w \<and> sint w = 1250)
   \<and> convert (count_time 0) (2 ^ 70) = None
   \<and> convert (count_time 3) (- (10 ^ 12)) = Some (minVal (count_time 3))"
proof -
  have a: "trunc (double_mult (5 / 4) (10 ^ 3)) = 1250"
    by code_simp
  have b: "trunc (double_mult (2 ^ 70) (10 ^ 0)) = 2 ^ 70"
    by code_simp
  have n: "(3 :: nat) < 16" "(0 :: nat) < 16"
    by simp_all
  note th1 = count_time_convert_truncates [OF n(1), of "5 / 4"]
  note th2 = count_time_convert_truncates [OF n(2), of "2 ^ 70"]
  note th3 = count_time_convert_truncates [OF n(1), of "- (10 ^ 12)"]
  have p1: "- (10 ^ 12) < (5 / 4 :: real) \<and> - (2 ^ 63) \<le> trunc (double_mult (5 / 4) (10 ^ 3))
      \<and> trunc (double_mult (5 / 4) (10 ^ 3)) < 2 ^ 63"
    unfolding a by simp
  have p2: "- (10 ^ 12) < (2 ^ 70 :: real) \<and> \<not> (- (2 ^ 63) \<le> trunc (double_mult (2 ^ 70) (10 ^ 0))
      \<and> trunc (double_mult (2 ^ 70) (10 ^ 0)) < 2 ^ 63)"
    unfolding b by simp
  have p3: "- (10 ^ 12) \<le> - ((10 :: real) ^ 12)"
    by simp
  from th1 p1 have "\<exists>w. convert (count_time 3) (5 / 4) = Some w
      \<and> sint w = trunc (double_mult (5 / 4) (10 ^ 3))"
    by blast
  then have "\<exists>w. convert (count_time 3) (5 / 4) = Some w \<and> sint w = 1250"
    unfolding a .
  moreover from th2 p2 have "convert (count_time 0) (2 ^ 70) = None"
    by blast
  moreover from th3 p3 have "convert (count_time 3) (- (10 ^ 12)) = Some (minVal (count_time 3))"
    by blast
  ultimately show ?thesis by blast
qed

section \<open>Construction\<close>

text \<open>
  The claim C5 as it is written fails for a default-initialised time value: it holds
  what its storage held, here 7, and not the zero sentinel.
\<close>

theorem default_initialised_not_zero:
  "timecode (timeRepresentation_default (7 :: int64)) = 7
   \<and> timecode (timeRepresentation_zeroVal (count_time 9)) = 0
   \<and> timeRepresentation_default (7 :: int64) \<noteq> timeRepresentation_zeroVal (count_time 9)"
  by (simp add: timeRepresentation_default_def timeRepresentation_zeroVal_def count_time_def)

text \<open>
  C5, amended.  For each of the three strategies a value-initialised time value equals
  the factory value \<^verbatim>\<open>zeroVal ()\<close>, whose time code is the strategy's zero sentinel; a
  default-initialised time value holds whatever its storage held.
\<close>

theorem value_initialised_is_zero:
  "timeRepresentation_value_init = timeRepresentation_zeroVal (integer_time N)
   \<and> timeRepresentation_value_init = timeRepresentation_zeroVal (count_time N)
   \<and> timeRepresentation_value_init = timeRepresentation_zeroVal double_time
   \<and> timecode (timeRepresentation_zeroVal S) = zeroVal S
   \<and> timecode (timeRepresentation_default v) = v"
  by (simp add: timeRepresentation_value_init_def timeRepresentation_zeroVal_def
      timeRepresentation_default_def integer_time_def count_time_def double_time_def)

section \<open>Counts of units\<close>

text \<open>
  C6.  With nine decimal digits, \<^verbatim>\<open>fromCount\<close> and \<^verbatim>\<open>toCount\<close> in nanoseconds scale by
  \<^verbatim>\<open>fac10[0]\<close>, which is 1: both are the identity on every 64-bit value, so a count of
  nanoseconds comes back unchanged, and the time value of 1.000000001 seconds has the
  time code and the nanosecond count 1000000001, for the decimal number as well as for
  the double nearest to it, which the literal \<^verbatim>\<open>1.000000001\<close> is.
\<close>

theorem count_time_9_nanoseconds:
  "count_time_fromCount 9 c ns = c
   \<and> count_time_toCount 9 val ns = val
   \<and> count_time_toCount 9 (count_time_fromCount 9 c ns) ns = c
   \<and> timeRepresentation_count (count_time 9) c ns = Some \<lparr> timecode = c \<rparr>
   \<and> toCount_of (count_time 9) \<lparr> timecode = c \<rparr> ns = Some c
   \<and> timeRepresentation_double (count_time 9) (1000000001 / 1000000000)
       = Some \<lparr> timecode = 1000000001 \<rparr>
   \<and> toCount_of (count_time 9) \<lparr> timecode = 1000000001 \<rparr> ns = Some 1000000001
   \<and> timeRepresentation_double (count_time 9) (round_double (1000000001 / 1000000000))
       = Some \<lparr> timecode = 1000000001 \<rparr>"
proof -
  have "timeRepresentation_double (count_time 9) (round_double (1000000001 / 1000000000))
      = Some \<lparr> timecode = 1000000001 \<rparr>"
    by code_simp
  then show ?thesis
    by (simp add: fac10_def int64_sdiv_1 timeRepresentation_count_def toCount_of_def
        timeRepresentation_double_def count_time_def count_time_convert_def dFactor_def
        fac10f_def static_cast_int64_def trunc_def double_mult_def
        round_double_of_int [of 1000000001, simplified])
qed

section \<open>The unit tables\<close>

text \<open>
  C8.  The two tables hold, per unit, the forward factor (seconds to unit) and the reverse
  factor (unit to seconds): ps \<open>1e12\<close> and \<open>1e-12\<close>, ns \<open>1e9\<close> and \<open>1e-9\<close>, us \<open>1e6\<close> and
  \<open>1e-6\<close>, ms \<open>1e3\<close> and \<open>1e-3\<close>, s and sec \<open>1\<close> and \<open>1\<close>, minutes \<open>10/60\<close> and \<open>60\<close>,
  hr \<open>1/3600\<close> and \<open>3600\<close>, day \<open>1/86400\<close> and \<open>86400\<close>; each table has exactly nine
  entries, and the product of the minutes pair is 10, not 1.
\<close>

theorem timeCount_tables:
  "length timeCountforward = 9 \<and> length timeCountReverse = 9
   \<and> timeCountforward ! static_cast_int ps = 10 ^ 12
   \<and> timeCountReverse ! static_cast_int ps = 1 / 10 ^ 12
   \<and> timeCountforward ! static_cast_int ns = 10 ^ 9
   \<and> timeCountReverse ! static_cast_int ns = 1 / 10 ^ 9
   \<and> timeCountforward ! static_cast_int us = 10 ^ 6
   \<and> timeCountReverse ! static_cast_int us = 1 / 10 ^ 6
   \<and> timeCountforward ! static_cast_int ms = 10 ^ 3
   \<and> timeCountReverse ! static_cast_int ms = 1 / 10 ^ 3
   \<and> timeCountforward ! static_cast_int s = 1
   \<and> timeCountReverse ! static_cast_int s = 1
   \<and> timeCountforward ! static_cast_int sec = 1
   \<and> timeCountReverse ! static_cast_int sec = 1
   \<and> timeCountforward ! static_cast_int minutes = 10 / 60
   \<and> timeCountReverse ! static_cast_int minutes = 60
   \<and> timeCountforward ! static_cast_int hr = 1 / 3600
   \<and> timeCountReverse ! static_cast_int hr = 3600
   \<and> timeCountforward ! static_cast_int day = 1 / 86400
   \<and> timeCountReverse ! static_cast_int day = 86400
   \<and> timeCountforward ! static_cast_int minutes * timeCountReverse ! static_cast_int minutes = 10
   \<and> timeCountforward ! static_cast_int minutes * timeCountReverse ! static_cast_int minutes \<noteq> 1"
  by (simp add: timeCountforward_def timeCountReverse_def)

section \<open>Division and remainder on the time code\<close>

text \<open>
  The claim C10 as it is written fails at the minimum sentinel divided by \<open>-1\<close>: the
  divisor is not zero, the truncated quotient \<open>2^63\<close> is no 64-bit value, and the
  division (like the remainder of the same pair) has no value.
\<close>

theorem raw_division_partial:
  "operator_divide_int (count_time 9) \<lparr> timecode = minVal (count_time 9) \<rparr> (- 1) = None
   \<and> (- 1 :: int32) \<noteq> 0
   \<and> sint (minVal (count_time 9)) sdiv sint (- 1 :: int32) = 2 ^ 63
   \<and> operator_modulo (count_time 9) \<lparr> timecode = minVal (count_time 9) \<rparr> \<lparr> timecode = - 1 \<rparr>
       = None"
  by (simp add: operator_divide_int_def operator_modulo_def count_time_def int64_ops_def
      int64_div_def int64_rem_def sint_INT64_MIN)

text \<open>
  C10, amended.  Under an integer strategy the operators divide the time code itself,
  with no check.  For a divisor \<open>d\<close> other than zero, and other than \<open>-1\<close> when the time
  code is the minimum sentinel, \<^verbatim>\<open>a / d\<close> and \<^verbatim>\<open>a /= d\<close> yield the truncated quotient of
  the time code; for a time code of \<open>b\<close> under the same condition, \<^verbatim>\<open>a % b\<close> and
  \<^verbatim>\<open>a %= b\<close> yield the remainder with the sign of the dividend.  With a zero divisor, or
  with the minimum sentinel divided by \<open>-1\<close>, the operation has no value.  Under
  \<^verbatim>\<open>double_time\<close> \<^verbatim>\<open>a / d\<close> is the quotient of the doubles, which is not truncated.
\<close>

theorem raw_division_defined:
  fixes S :: "int64 Tconv"
  assumes S: "S = integer_time N \<or> S = count_time N"
  shows "(d \<noteq> 0 \<and> \<not> (timecode a = minVal S \<and> d = - 1) \<longrightarrow>
            (\<exists>q. operator_divide_int S a d = Some \<lparr> timecode = q \<rparr>
               \<and> operator_divide_assign_int S a d = Some (a \<lparr> timecode := q \<rparr>)
               \<and> sint q = sint (timecode a) sdiv sint d))
       \<and> (timecode b \<noteq> 0 \<and> \<not> (timecode a = minVal S \<and> timecode b = - 1) \<longrightarrow>
            (\<exists>r. operator_modulo S a b = Some \<lparr> timecode = r \<rparr>
               \<and> operator_modulo_assign S a b = Some (a \<lparr> timecode := r \<rparr>)
               \<and> sint r = sint (timecode a) smod sint (timecode b)))
       \<and> operator_divide_int S a 0 = None
       \<and> operator_divide_assign_int S a 0 = None
       \<and> (timecode b = 0 \<longrightarrow> operator_modulo S a b = None \<and> operator_modulo_assign S a b = None)
       \<and> (timecode a = minVal S \<longrightarrow>
            operator_divide_int S a (- 1) = None \<and> operator_divide_assign_int S a (- 1) = None)
       \<and> operator_divide_int double_time X d
           = (if d = 0 then None
              else Some \<lparr> timecode = double_quot (timecode X) (real_of_int (sint d)) \<rparr>)"
proof -
  note ops = integer_strategy_ops [OF S]
  have div: "\<exists>q. operator_divide_int S a d = Some \<lparr> timecode = q \<rparr>
      \<and> operator_divide_assign_int S a d = Some (a \<lparr> timecode := q \<rparr>)
      \<and> sint q = sint (timecode a) sdiv sint d"
    if "d \<noteq> 0" and "\<not> (timecode a = minVal S \<and> d = - 1)"
  proof -
    from that ops have "scast d \<noteq> (0 :: int64)"
      and "\<not> (timecode a = INT64_MIN \<and> (scast d :: int64) = - 1)"
      by (simp_all add: scast_32_64_zero scast_32_64_minus_one)
    then have "int64_div (timecode a) (scast d) = Some (int64_sdiv (timecode a) (scast d))"
      and "sint (int64_sdiv (timecode a) (scast d)) = sint (timecode a) sdiv sint d"
      by (simp_all add: int64_div_def sint_int64_sdiv sint_scast_32_64)
    with ops show ?thesis
      by (simp add: operator_divide_int_def operator_divide_assign_int_def int64_ops_def)
  qed
  have rem: "\<exists>r. operator_modulo S a b = Some \<lparr> timecode = r \<rparr>
      \<and> operator_modulo_assign S a b = Some (a \<lparr> timecode := r \<rparr>)
      \<and> sint r = sint (timecode a) smod sint (timecode b)"
    if "timecode b \<noteq> 0" and "\<not> (timecode a = minVal S \<and> timecode b = - 1)"
  proof -
    from that ops
    have "int64_rem (timecode a) (timecode b) = Some (int64_smod (timecode a) (timecode b))"
      and "sint (int64_smod (timecode a) (timecode b)) = sint (timecode a) smod sint (timecode b)"
      by (simp_all add: int64_rem_def sint_int64_smod)
    with ops show ?thesis
      by (simp add: operator_modulo_def operator_modulo_assign_def int64_ops_def)
  qed
  have zero: "operator_divide_int S a 0 = None \<and> operator_divide_assign_int S a 0 = None"
    using ops
    by (simp add: operator_divide_int_def operator_divide_assign_int_def int64_ops_def
        int64_div_def)
  have rem0: "operator_modulo S a b = None \<and> operator_modulo_assign S a b = None"
    if "timecode b = 0"
    using ops that
    by (simp add: operator_modulo_def operator_modulo_assign_def int64_ops_def int64_rem_def)
  have ovf: "operator_divide_int S a (- 1) = None \<and> operator_divide_assign_int S a (- 1) = None"
    if "timecode a = minVal S"
    using ops that
    by (simp add: operator_divide_int_def operator_divide_assign_int_def int64_ops_def
        int64_div_def)
  have dbl: "operator_divide_int double_time X d
      = (if d = 0 then None
         else Some \<lparr> timecode = double_quot (timecode X) (real_of_int (sint d)) \<rparr>)"
    by (simp add: operator_divide_int_def double_time_def double_ops_def double_div_def
        signed_eq_0_iff)
  from div rem zero rem0 ovf dbl show ?thesis by blast
qed

theorem raw_division_defined_witness:
  "(\<exists>q. operator_divide_int (count_time 9) \<lparr> timecode = - 37 \<rparr> 5 = Some \<lparr> timecode = q \<rparr>
      \<and> operator_divide_assign_int (count_time 9) \<lparr> timecode = - 37 \<rparr> 5 = Some \<lparr> timecode = q \<rparr>
      \<and> sint q = - 7)
   \<and> (\<exists>r. operator_modulo (count_time 9) \<lparr> timecode = - 37 \<rparr> \<lparr> timecode = 16 \<rparr>
        = Some \<lparr> timecode = r \<rparr> \<and> sint r = - 5)
   \<and> operator_divide_int (count_time 9) \<lparr> timecode = - 37 \<rparr> 0 = None"
proof -
  have S: "count_time 9 = integer_time 9 \<or> count_time 9 = count_time 9" by simp
  have m: "minVal (count_time 9) = INT64_MIN" by (simp add: count_time_def)
  show ?thesis
    using raw_division_defined [OF S, of 5 "\<lparr> timecode = - 37 \<rparr>" "\<lparr> timecode = 16 \<rparr>"]
    by (auto simp: m INT64_MIN_def)
qed

section \<open>The trigger of the collector\<close>

text \<open>
  C9.  Under an integer strategy and with a period above zero: when \<^verbatim>\<open>trigger (time)\<close>
  returns, the last trigger time is \<open>time\<close> and the trigger time is above \<open>time\<close>; the
  trigger time is the maximum sentinel when the time the loop advanced to is above the
  stop time, and that advanced time otherwise; the call does return when
  \<open>time + timePeriod\<close> does not overflow; and no time value is above the maximum
  sentinel.
\<close>

theorem collector_trigger:
  fixes S :: "int64 Tconv"
  assumes S: "S = integer_time N \<or> S = count_time N"
    and pos: "operator_gt S (timePeriod c) (timeRepresentation_zeroVal S)"
  shows "(trigger_loop S time (timePeriod c) (triggerTime c) 0 = Some adv \<longrightarrow>
            trigger S c time = Some (c \<lparr> lastTriggerTime := time,
              triggerTime := (if operator_gt S adv (stopTime c) then maxTime S else adv) \<rparr>))
       \<and> (trigger S c time = Some c' \<longrightarrow>
            lastTriggerTime c' = time \<and> operator_gt S (triggerTime c') time)
       \<and> (sint (timecode time) + sint (timecode (timePeriod c)) < 2 ^ 63 \<longrightarrow>
            (\<exists>c'. trigger S c time = Some c'))
       \<and> operator_le S t (maxTime S)"
proof (intro conjI impI)
  note ops = integer_strategy_ops [OF S]
  show "operator_le S t (maxTime S)"
    using ops sint_64_bounds [of "timecode t"]
    by (simp add: operator_le_def maxTime_def timeRepresentation_maxVal_def int64_ops_def
        word_sle_eq sint_INT64_MAX)
  show "trigger S c time = Some (c \<lparr> lastTriggerTime := time,
      triggerTime := (if operator_gt S adv (stopTime c) then maxTime S else adv) \<rparr>)"
    if "trigger_loop S time (timePeriod c) (triggerTime c) 0 = Some adv"
    using that by (simp add: trigger_def)
  show "lastTriggerTime c' = time" if "trigger S c time = Some c'"
    using that by (auto simp: trigger_def split: option.splits)
  show "operator_gt S (triggerTime c') time" if "trigger S c time = Some c'"
  proof -
    from that obtain r where r: "trigger_loop S time (timePeriod c) (triggerTime c) 0 = Some r"
      and c': "triggerTime c' = (if operator_gt S r (stopTime c) then maxTime S else r)"
      by (auto simp: trigger_def split: option.splits)
    from r ops have gt: "operator_gt S r time"
      by (intro trigger_loop_result) auto
    have "sint (timecode r) \<le> sint INT64_MAX"
      using sint_64_bounds [of "timecode r"] by (simp add: sint_INT64_MAX)
    with gt ops have "operator_gt S (maxTime S) time"
      by (simp add: operator_gt_def maxTime_def timeRepresentation_maxVal_def int64_ops_def
          word_sless_alt)
    with gt c' show ?thesis by simp
  qed
  show "\<exists>c'. trigger S c time = Some c'"
    if "sint (timecode time) + sint (timecode (timePeriod c)) < 2 ^ 63"
  proof -
    from pos ops have "0 < sint (timecode (timePeriod c))"
      by (simp add: operator_gt_def timeRepresentation_zeroVal_def int64_ops_def word_sless_alt)
    with that have "word_sless (timecode time) (timecode time + timecode (timePeriod c))"
      by (intro word_sless_plus_64)
    with ops have "operator_gt S (operator_plus S time (timePeriod c)) time"
      by (simp add: operator_gt_def operator_plus_def int64_ops_def)
    with ops obtain r where "trigger_loop S time (timePeriod c) (triggerTime c) 0 = Some r"
      using trigger_loop_returns [of S time "timePeriod c" "triggerTime c" 0] by blast
    then show ?thesis by (simp add: trigger_def)
  qed
qed

theorem collector_trigger_witness:
  "\<exists>c'. trigger (count_time 9)
          \<lparr> timePeriod = \<lparr> timecode = 1000000000 \<rparr>, reqPeriod = \<lparr> timecode = 1000000000 \<rparr>,
            startTime = \<lparr> timecode = 0 \<rparr>, stopTime = \<lparr> timecode = 60000000000 \<rparr>,
            triggerTime = \<lparr> timecode = 0 \<rparr>, lastTriggerTime = \<lparr> timecode = 0 \<rparr> \<rparr>
          \<lparr> timecode = 2500000000 \<rparr> = Some c'
        \<and> lastTriggerTime c' = \<lparr> timecode = 2500000000 \<rparr>
        \<and> operator_gt (count_time 9) (triggerTime c') \<lparr> timecode = 2500000000 \<rparr>"
proof -
  let ?c = "\<lparr> timePeriod = \<lparr> timecode = 1000000000 :: int64 \<rparr>,
            reqPeriod = \<lparr> timecode = 1000000000 \<rparr>,
            startTime = \<lparr> timecode = 0 \<rparr>, stopTime = \<lparr> timecode = 60000000000 \<rparr>,
            triggerTime = \<lparr> timecode = 0 \<rparr>, lastTriggerTime = \<lparr> timecode = 0 \<rparr> \<rparr>"
  let ?t = "\<lparr> timecode = 2500000000 :: int64 \<rparr>"
  have S: "count_time 9 = integer_time 9 \<or> count_time 9 = count_time 9" by simp
  have pos: "operator_gt (count_time 9) (timePeriod ?c) (timeRepresentation_zeroVal (count_time 9))"
    by (simp add: operator_gt_def timeRepresentation_zeroVal_def count_time_def int64_ops_def
        word_sless_alt)
  have "sint (timecode ?t) + sint (timecode (timePeriod ?c)) < 2 ^ 63" by simp
  with collector_trigger [OF S pos, of ?t] obtain c' where c': "trigger (count_time 9) ?c ?t = Some c'"
    by blast
  with collector_trigger [OF S pos, of ?t _ c'] show ?thesis by blast
qed

section \<open>Modulo\<close>

text \<open>
  The claim C7 as it is written fails: \<^verbatim>\<open>A % B\<close> has no value when the time code of
  \<open>B\<close> is zero, nor for the minimum sentinel and \<open>-1\<close>, and for the time codes \<open>-37\<close> and
  16 it is \<open>-5\<close>, where \<open>mod\<close> is 11.
\<close>

theorem modulo_partial:
  "operator_modulo (integer_time 4) \<lparr> timecode = minVal (integer_time 4) \<rparr>
     \<lparr> timecode = - 1 \<rparr> = None
   \<and> operator_modulo (integer_time 4) \<lparr> timecode = - 37 \<rparr> \<lparr> timecode = 16 \<rparr>
       = Some \<lparr> timecode = - 5 \<rparr>
   \<and> (- 37 :: int) mod 16 = 11
   \<and> operator_modulo (integer_time 4) \<lparr> timecode = 37 \<rparr> \<lparr> timecode = 0 \<rparr> = None"
  by code_simp

text \<open>
  C7, amended.  Under an integer strategy, for every two time values such that the time
  code of \<open>B\<close> is not zero, and is not \<open>-1\<close> when the time code of \<open>A\<close> is the minimum
  sentinel, \<^verbatim>\<open>A % B\<close> and \<^verbatim>\<open>A %= B\<close> are the integer remainder of the two time codes,
  taken on the codes themselves: the remainder of the quotient truncated towards zero,
  with the sign of the dividend, which is \<open>mod\<close> when neither code is negative.  Outside
  these pairs the operators have no value.  With four fractional bits, the time codes
  37 and 16 give 5.
\<close>

theorem modulo_on_raw:
  fixes S :: "int64 Tconv"
  assumes S: "S = integer_time N \<or> S = count_time N"
  shows "(timecode B \<noteq> 0 \<and> \<not> (timecode A = minVal S \<and> timecode B = - 1) \<longrightarrow>
            (\<exists>r. operator_modulo S A B = Some \<lparr> timecode = r \<rparr>
               \<and> operator_modulo_assign S A B = Some (A \<lparr> timecode := r \<rparr>)
               \<and> sint r = sint (timecode A) smod sint (timecode B)
               \<and> sint r = sint (timecode A) - sint (timecode B)
                   * (sint (timecode A) sdiv sint (timecode B))
               \<and> (0 \<le> sint (timecode A) \<and> 0 \<le> sint (timecode B) \<longrightarrow>
                    sint r = sint (timecode A) mod sint (timecode B))))
       \<and> (timecode B = 0 \<or> (timecode A = minVal S \<and> timecode B = - 1) \<longrightarrow>
            operator_modulo S A B = None \<and> operator_modulo_assign S A B = None)
       \<and> operator_modulo (integer_time 4) \<lparr> timecode = 37 \<rparr> \<lparr> timecode = 16 \<rparr>
           = Some \<lparr> timecode = 5 \<rparr>
       \<and> operator_modulo_assign (integer_time 4) \<lparr> timecode = 37 \<rparr> \<lparr> timecode = 16 \<rparr>
           = Some \<lparr> timecode = 5 \<rparr>"
proof -
  note ops = integer_strategy_ops [OF S]
  let ?a = "timecode A" and ?b = "timecode B"
  have defined: "\<exists>r. operator_modulo S A B = Some \<lparr> timecode = r \<rparr>
      \<and> operator_modulo_assign S A B = Some (A \<lparr> timecode := r \<rparr>)
      \<and> sint r = sint ?a smod sint ?b
      \<and> sint r = sint ?a - sint ?b * (sint ?a sdiv sint ?b)
      \<and> (0 \<le> sint ?a \<and> 0 \<le> sint ?b \<longrightarrow> sint r = sint ?a mod sint ?b)"
    if "?b \<noteq> 0" and "\<not> (?a = minVal S \<and> ?b = - 1)"
  proof -
    from that ops have rem: "int64_rem ?a ?b = Some (int64_smod ?a ?b)"
      by (simp add: int64_rem_def)
    have s: "sint (int64_smod ?a ?b) = sint ?a smod sint ?b"
      using that(1) by (rule sint_int64_smod)
    have "sint ?a smod sint ?b = sint ?a - sint ?b * (sint ?a sdiv sint ?b)"
      by (simp add: minus_mult_sdiv_eq_smod)
    moreover have "sint ?a smod sint ?b = sint ?a mod sint ?b"
      if "0 \<le> sint ?a \<and> 0 \<le> sint ?b"
      using that by (simp add: smod_mod_positive)
    ultimately show ?thesis
      using ops rem s
      by (simp add: operator_modulo_def operator_modulo_assign_def int64_ops_def)
  qed
  have undefined: "operator_modulo S A B = None \<and> operator_modulo_assign S A B = None"
    if "?b = 0 \<or> (?a = minVal S \<and> ?b = - 1)"
  proof -
    from that ops have "int64_rem ?a ?b = None"
      by (auto simp: int64_rem_def)
    with ops show ?thesis
      by (simp add: operator_modulo_def operator_modulo_assign_def int64_ops_def)
  qed
  have ex: "operator_modulo (integer_time 4) \<lparr> timecode = 37 \<rparr> \<lparr> timecode = 16 \<rparr>
      = Some \<lparr> timecode = 5 \<rparr>"
    "operator_modulo_assign (integer_time 4) \<lparr> timecode = 37 \<rparr> \<lparr> timecode = 16 \<rparr>
      = Some \<lparr> timecode = 5 \<rparr>"
    by (simp_all add: operator_modulo_def operator_modulo_assign_def integer_time_def
        int64_ops_def int64_rem_def int64_smod_def INT64_MIN_def)
  from defined undefined ex show ?thesis
    by blast
qed

theorem modulo_on_raw_witness:
  "(\<exists>r. operator_modulo (count_time 9) \<lparr> timecode = - 37 \<rparr> \<lparr> timecode = 16 \<rparr>
       = Some \<lparr> timecode = r \<rparr> \<and> sint r = - 5)
   \<and> (\<exists>r. operator_modulo (count_time 9) \<lparr> timecode = 37 \<rparr> \<lparr> timecode = 16 \<rparr>
       = Some \<lparr> timecode = r \<rparr> \<and> sint r = 37 mod 16)
   \<and> operator_modulo (count_time 9) \<lparr> timecode = 37 \<rparr> \<lparr> timecode = 0 \<rparr> = None"
proof -
  have S: "count_time 9 = integer_time 9 \<or> count_time 9 = count_time 9" by simp
  have m: "minVal (count_time 9) = INT64_MIN" by (simp add: count_time_def)
  note th1 = modulo_on_raw [OF S, where A = "\<lparr> timecode = - 37 \<rparr>" and B = "\<lparr> timecode = 16 \<rparr>"]
  note th2 = modulo_on_raw [OF S, where A = "\<lparr> timecode = 37 \<rparr>" and B = "\<lparr> timecode = 16 \<rparr>"]
  note th3 = modulo_on_raw [OF S, where A = "\<lparr> timecode = 37 \<rparr>" and B = "\<lparr> timecode = 0 \<rparr>"]
  from th1 have "\<exists>r. operator_modulo (count_time 9) \<lparr> timecode = - 37 \<rparr> \<lparr> timecode = 16 \<rparr>
      = Some \<lparr> timecode = r \<rparr> \<and> sint r = - 5"
    by (auto simp: m INT64_MIN_def)
  moreover from th2 have "\<exists>r. operator_modulo (count_time 9) \<lparr> timecode = 37 \<rparr>
      \<lparr> timecode = 16 \<rparr> = Some \<lparr> timecode = r \<rparr> \<and> sint r = 37 mod 16"
    by (auto simp: m INT64_MIN_def)
  moreover from th3 have "operator_modulo (count_time 9) \<lparr> timecode = 37 \<rparr>
      \<lparr> timecode = 0 \<rparr> = None"
    by simp
  ultimately show ?thesis by blast
qed

section \<open>Comparison\<close>

text \<open>
  C4.  The six comparisons of two time values are the comparisons of the base type on
  the two time codes (signed comparison of the 64-bit codes under the integer
  strategies, comparison of the doubles under \<^verbatim>\<open>double_time\<close>).  A comparison with a
  double on either side constructs a time value from the double with the same strategy
  and compares the two time values.  So a time value constructed from 5.0 seconds
  compares equal to the double 5.0 under every operator, with the double on either
  side: \<^verbatim>\<open>==\<close>, \<^verbatim>\<open><=\<close> and \<^verbatim>\<open>>=\<close> hold, \<^verbatim>\<open>!=\<close>, \<^verbatim>\<open><\<close> and \<^verbatim>\<open>>\<close> do not.  The
  construction from 5.0 has a value under \<^verbatim>\<open>double_time\<close>, under \<^verbatim>\<open>count_time<M>\<close> for
  \<open>M < 16\<close>, and under \<^verbatim>\<open>integer_time<M>\<close> for \<open>M \<le> 60\<close>, where it is the minimum
  sentinel.
\<close>

theorem comparisons_on_raw:
  fixes S :: "'b Tconv" and I :: "int64 Tconv"
  assumes I: "I = integer_time N \<or> I = count_time N"
  shows "operator_eq S A B = (timecode A = timecode B)
       \<and> operator_ne S A B = (timecode A \<noteq> timecode B)
       \<and> operator_lt S A B = op_less (baseType S) (timecode A) (timecode B)
       \<and> operator_gt S A B = op_less (baseType S) (timecode B) (timecode A)
       \<and> operator_le S A B = op_less_equal (baseType S) (timecode A) (timecode B)
       \<and> operator_ge S A B = op_less_equal (baseType S) (timecode B) (timecode A)
       \<and> op_less (baseType I) a b = (sint a < sint b)
       \<and> op_less_equal (baseType I) a b = (sint a \<le> sint b)
       \<and> op_less (baseType double_time) u v = (u < v)
       \<and> op_less_equal (baseType double_time) u v = (u \<le> v)
       \<and> timeRepresentation_double S x = map_option (\<lambda>c. \<lparr> timecode = c \<rparr>) (convert S x)
       \<and> eq_time_double S A x = map_option (operator_eq S A) (timeRepresentation_double S x)
       \<and> ne_time_double S A x = map_option (operator_ne S A) (timeRepresentation_double S x)
       \<and> lt_time_double S A x = map_option (operator_lt S A) (timeRepresentation_double S x)
       \<and> gt_time_double S A x = map_option (operator_gt S A) (timeRepresentation_double S x)
       \<and> le_time_double S A x = map_option (operator_le S A) (timeRepresentation_double S x)
       \<and> ge_time_double S A x = map_option (operator_ge S A) (timeRepresentation_double S x)
       \<and> eq_double_time S x A
           = map_option (\<lambda>L. operator_eq S L A) (timeRepresentation_double S x)
       \<and> ne_double_time S x A
           = map_option (\<lambda>L. operator_ne S L A) (timeRepresentation_double S x)
       \<and> lt_double_time S x A
           = map_option (\<lambda>L. operator_lt S L A) (timeRepresentation_double S x)
       \<and> gt_double_time S x A
           = map_option (\<lambda>L. operator_gt S L A) (timeRepresentation_double S x)
       \<and> le_double_time S x A
           = map_option (\<lambda>L. operator_le S L A) (timeRepresentation_double S x)
       \<and> ge_double_time S x A
           = map_option (\<lambda>L. operator_ge S L A) (timeRepresentation_double S x)
       \<and> (timeRepresentation_double I 5 = Some T \<longrightarrow>
            eq_time_double I T 5 = Some True \<and> eq_double_time I 5 T = Some True
            \<and> ne_time_double I T 5 = Some False \<and> ne_double_time I 5 T = Some False
            \<and> lt_time_double I T 5 = Some False \<and> lt_double_time I 5 T = Some False
            \<and> gt_time_double I T 5 = Some False \<and> gt_double_time I 5 T = Some False
            \<and> le_time_double I T 5 = Some True \<and> le_double_time I 5 T = Some True
            \<and> ge_time_double I T 5 = Some True \<and> ge_double_time I 5 T = Some True)
       \<and> (timeRepresentation_double double_time 5 = Some D \<longrightarrow>
            eq_time_double double_time D 5 = Some True \<and> eq_double_time double_time 5 D = Some True
            \<and> ne_time_double double_time D 5 = Some False
            \<and> ne_double_time double_time 5 D = Some False
            \<and> lt_time_double double_time D 5 = Some False
            \<and> lt_double_time double_time 5 D = Some False
            \<and> gt_time_double double_time D 5 = Some False
            \<and> gt_double_time double_time 5 D = Some False
            \<and> le_time_double double_time D 5 = Some True \<and> le_double_time double_time 5 D = Some True
            \<and> ge_time_double double_time D 5 = Some True
            \<and> ge_double_time double_time 5 D = Some True)
       \<and> timeRepresentation_double double_time 5 = Some \<lparr> timecode = 5 \<rparr>
       \<and> (M < 16 \<longrightarrow>
            timeRepresentation_double (count_time M) 5
              = Some \<lparr> timecode = word_of_int (5 * 10 ^ M) \<rparr>)
       \<and> (M \<le> 60 \<longrightarrow>
            timeRepresentation_double (integer_time M) 5 = Some \<lparr> timecode = INT64_MIN \<rparr>)"
proof -
  note ops = integer_strategy_ops [OF I]
  have two: "operator_eq S A B = (timecode A = timecode B)
       \<and> operator_ne S A B = (timecode A \<noteq> timecode B)
       \<and> operator_lt S A B = op_less (baseType S) (timecode A) (timecode B)
       \<and> operator_gt S A B = op_less (baseType S) (timecode B) (timecode A)
       \<and> operator_le S A B = op_less_equal (baseType S) (timecode A) (timecode B)
       \<and> operator_ge S A B = op_less_equal (baseType S) (timecode B) (timecode A)"
    by (simp add: comparison_defs)
  have base: "op_less (baseType I) a b = (sint a < sint b)
       \<and> op_less_equal (baseType I) a b = (sint a \<le> sint b)
       \<and> op_less (baseType double_time) u v = (u < v)
       \<and> op_less_equal (baseType double_time) u v = (u \<le> v)" for a b u v
    using ops by (simp add: int64_ops_def double_time_def double_ops_def word_sless_alt word_sle_eq)
  have ctor: "timeRepresentation_double S x = map_option (\<lambda>c. \<lparr> timecode = c \<rparr>) (convert S x)"
    by (simp add: timeRepresentation_double_def)
  have right: "eq_time_double S A x = map_option (operator_eq S A) (timeRepresentation_double S x)
       \<and> ne_time_double S A x = map_option (operator_ne S A) (timeRepresentation_double S x)
       \<and> lt_time_double S A x = map_option (operator_lt S A) (timeRepresentation_double S x)
       \<and> gt_time_double S A x = map_option (operator_gt S A) (timeRepresentation_double S x)
       \<and> le_time_double S A x = map_option (operator_le S A) (timeRepresentation_double S x)
       \<and> ge_time_double S A x = map_option (operator_ge S A) (timeRepresentation_double S x)"
    by (simp add: mixed_comparison_defs split: option.splits)
  have left: "eq_double_time S x A
           = map_option (\<lambda>L. operator_eq S L A) (timeRepresentation_double S x)
       \<and> ne_double_time S x A
           = map_option (\<lambda>L. operator_ne S L A) (timeRepresentation_double S x)
       \<and> lt_double_time S x A
           = map_option (\<lambda>L. operator_lt S L A) (timeRepresentation_double S x)
       \<and> gt_double_time S x A
           = map_option (\<lambda>L. operator_gt S L A) (timeRepresentation_double S x)
       \<and> le_double_time S x A
           = map_option (\<lambda>L. operator_le S L A) (timeRepresentation_double S x)
       \<and> ge_double_time S x A
           = map_option (\<lambda>L. operator_ge S L A) (timeRepresentation_double S x)"
    by (simp add: mixed_comparison_defs split: option.splits)
  have five_I: "eq_time_double I T 5 = Some True \<and> eq_double_time I 5 T = Some True
            \<and> ne_time_double I T 5 = Some False \<and> ne_double_time I 5 T = Some False
            \<and> lt_time_double I T 5 = Some False \<and> lt_double_time I 5 T = Some False
            \<and> gt_time_double I T 5 = Some False \<and> gt_double_time I 5 T = Some False
            \<and> le_time_double I T 5 = Some True \<and> le_double_time I 5 T = Some True
            \<and> ge_time_double I T 5 = Some True \<and> ge_double_time I 5 T = Some True"
    if "timeRepresentation_double I 5 = Some T"
    using that by (rule compares_equal) (simp_all add: base)
  have five_D: "eq_time_double double_time D 5 = Some True \<and> eq_double_time double_time 5 D = Some True
            \<and> ne_time_double double_time D 5 = Some False
            \<and> ne_double_time double_time 5 D = Some False
            \<and> lt_time_double double_time D 5 = Some False
            \<and> lt_double_time double_time 5 D = Some False
            \<and> gt_time_double double_time D 5 = Some False
            \<and> gt_double_time double_time 5 D = Some False
            \<and> le_time_double double_time D 5 = Some True \<and> le_double_time double_time 5 D = Some True
            \<and> ge_time_double double_time D 5 = Some True
            \<and> ge_double_time double_time 5 D = Some True"
    if "timeRepresentation_double double_time 5 = Some D"
    using that by (rule compares_equal) (simp_all add: base)
  have D5: "timeRepresentation_double double_time 5 = Some \<lparr> timecode = 5 \<rparr>"
    by (simp add: timeRepresentation_double_def double_time_def)
  have C5: "timeRepresentation_double (count_time M) 5
      = Some \<lparr> timecode = word_of_int (5 * 10 ^ M) \<rparr>" if "M < 16"
    using that by (rule count_time_from_five)
  have B5: "timeRepresentation_double (integer_time M) 5 = Some \<lparr> timecode = INT64_MIN \<rparr>"
    if "M \<le> 60"
    using that by (rule integer_time_from_five)
  from two base ctor right left five_I five_D D5 C5 B5 show ?thesis
    by (intro conjI impI) (simp_all only:)
qed

theorem comparisons_on_raw_witness:
  "timeRepresentation_double (count_time 9) 5 = Some \<lparr> timecode = 5000000000 \<rparr>
   \<and> eq_time_double (count_time 9) \<lparr> timecode = 5000000000 \<rparr> 5 = Some True
   \<and> eq_double_time (count_time 9) 5 \<lparr> timecode = 5000000000 \<rparr> = Some True
   \<and> ne_time_double (count_time 9) \<lparr> timecode = 5000000000 \<rparr> 5 = Some False
   \<and> lt_double_time (count_time 9) 5 \<lparr> timecode = 5000000000 \<rparr> = Some False
   \<and> gt_time_double (count_time 9) \<lparr> timecode = 5000000000 \<rparr> 5 = Some False
   \<and> le_double_time (count_time 9) 5 \<lparr> timecode = 5000000000 \<rparr> = Some True
   \<and> ge_time_double (count_time 9) \<lparr> timecode = 5000000000 \<rparr> 5 = Some True
   \<and> eq_time_double double_time \<lparr> timecode = 5 \<rparr> 5 = Some True
   \<and> lt_double_time double_time 5 \<lparr> timecode = 5 \<rparr> = Some False"
proof -
  have S: "count_time 9 = integer_time 9 \<or> count_time 9 = count_time 9" by simp
  have T: "timeRepresentation_double (count_time 9) 5 = Some \<lparr> timecode = 5000000000 \<rparr>"
    using count_time_from_five [of 9] by simp
  note th = comparisons_on_raw [OF S, where T = "\<lparr> timecode = 5000000000 \<rparr>"
      and D = "\<lparr> timecode = 5 \<rparr>"]
  from th T have "eq_time_double (count_time 9) \<lparr> timecode = 5000000000 \<rparr> 5 = Some True
      \<and> eq_double_time (count_time 9) 5 \<lparr> timecode = 5000000000 \<rparr> = Some True
      \<and> ne_time_double (count_time 9) \<lparr> timecode = 5000000000 \<rparr> 5 = Some False
      \<and> lt_double_time (count_time 9) 5 \<lparr> timecode = 5000000000 \<rparr> = Some False
      \<and> gt_time_double (count_time 9) \<lparr> timecode = 5000000000 \<rparr> 5 = Some False
      \<and> le_double_time (count_time 9) 5 \<lparr> timecode = 5000000000 \<rparr> = Some True
      \<and> ge_time_double (count_time 9) \<lparr> timecode = 5000000000 \<rparr> 5 = Some True"
    by blast
  moreover from th have "eq_time_double double_time \<lparr> timecode = 5 \<rparr> 5 = Some True
      \<and> lt_double_time double_time 5 \<lparr> timecode = 5 \<rparr> = Some False"
    by blast
  ultimately show ?thesis
    using T by blast
qed

section \<open>Scaling and ratios\<close>

text \<open>
  The claim C3 as it is written fails.  Under \<^verbatim>\<open>count_time<0>\<close> the time value of one
  second times 0.5 is the time value zero, which decodes to 0 and not to 0.5.  Under
  \<^verbatim>\<open>count_time<9>\<close> the time code 1000000007 times 1.0 is the time code 1000000006.
  And a ratio whose divisor decodes to zero is no real number.
\<close>

theorem times_double_truncates:
  "operator_times_double (count_time 0) \<lparr> timecode = 1 \<rparr> (1 / 2) = Some \<lparr> timecode = 0 \<rparr>
   \<and> operator_double (count_time 0) \<lparr> timecode = 1 \<rparr> * (1 / 2) = 1 / 2
   \<and> operator_double (count_time 0) \<lparr> timecode = 0 \<rparr> = 0
   \<and> operator_times_double (count_time 9) \<lparr> timecode = 1000000007 \<rparr> 1
       = Some \<lparr> timecode = 1000000006 \<rparr>
   \<and> time_divide_time (count_time 9) \<lparr> timecode = 1000000007 \<rparr> \<lparr> timecode = 0 \<rparr> = None"
  by code_simp

text \<open>
  C3, amended.  \<^verbatim>\<open>T * x\<close> is the time value whose time code is \<^verbatim>\<open>convert\<close> of the
  double product of the decoded value of \<open>T\<close> and \<open>x\<close>; its decoded value is that product
  under \<^verbatim>\<open>double_time\<close>, and under the other strategies only what encoding and decoding
  keep of it (2 s times 3.0 decodes to 6.0 with nine decimal digits).  The double product
  is the exact product rounded to a double, and is the exact product when that is a
  double.  \<^verbatim>\<open>x * T\<close> is the double product of \<open>x\<close> and the decoded value of \<open>T\<close>, and no
  time value.  When the divisor does not decode to zero, \<^verbatim>\<open>A / B\<close> and \<^verbatim>\<open>x / T\<close> are the
  double quotients by the decoded value of the divisor, and no time values; when it
  decodes to zero they are no real numbers.
\<close>

theorem scalar_operators:
  fixes S :: "'b Tconv"
  shows "operator_times_double S T x
           = map_option (\<lambda>c. \<lparr> timecode = c \<rparr>) (convert S (double_mult (operator_double S T) x))
       \<and> double_times_time S x T = double_mult x (operator_double S T)
       \<and> time_divide_time S A B
           = (if operator_double S B = 0 then None
              else Some (double_quot (operator_double S A) (operator_double S B)))
       \<and> double_divide_time S x T
           = (if operator_double S T = 0 then None
              else Some (double_quot x (operator_double S T)))
       \<and> (\<exists>R. operator_times_double double_time X x = Some R
             \<and> operator_double double_time R = double_mult (operator_double double_time X) x)
       \<and> double_mult a b = round_double (a * b)
       \<and> double_quot a b = round_double (a / b)
       \<and> (\<bar>m\<bar> < 2 ^ 53 \<and> a * b = real_of_int m * 2 ^ n \<longrightarrow> double_mult a b = a * b)
       \<and> operator_times_double (count_time 9) \<lparr> timecode = 2000000000 \<rparr> 3
           = Some \<lparr> timecode = 6000000000 \<rparr>
       \<and> operator_double (count_time 9) \<lparr> timecode = 2000000000 \<rparr> = 2
       \<and> operator_double (count_time 9) \<lparr> timecode = 6000000000 \<rparr> = 6
       \<and> double_times_time (count_time 9) 3 \<lparr> timecode = 2000000000 \<rparr> = 6
       \<and> time_divide_time (count_time 9) \<lparr> timecode = 6000000000 \<rparr> \<lparr> timecode = 3000000000 \<rparr>
           = Some 2
       \<and> double_divide_time (count_time 9) 3 \<lparr> timecode = 2000000000 \<rparr> = Some (3 / 2)
       \<and> operator_times_double double_time \<lparr> timecode = 2 \<rparr> 3 = Some \<lparr> timecode = 6 \<rparr>
       \<and> operator_double (count_time 9) \<lparr> timecode = 1000000007 \<rparr>
           = 4503599658895693 / 4503599627370496
       \<and> operator_times_double (count_time 9) \<lparr> timecode = 1000000007 \<rparr> 1
           = Some \<lparr> timecode = 1000000006 \<rparr>"
proof -
  have 1: "operator_times_double S T x
      = map_option (\<lambda>c. \<lparr> timecode = c \<rparr>) (convert S (double_mult (operator_double S T) x))"
    by (simp add: operator_times_double_def operator_double_def timeRepresentation_double_def)
  have 2: "double_times_time S x T = double_mult x (operator_double S T)"
    by (simp add: double_times_time_def)
  have 3: "time_divide_time S A B
      = (if operator_double S B = 0 then None
         else Some (double_quot (operator_double S A) (operator_double S B)))"
    by (simp add: time_divide_time_def double_div_def)
  have 4: "double_divide_time S x T
      = (if operator_double S T = 0 then None
         else Some (double_quot x (operator_double S T)))"
    by (simp add: double_divide_time_def double_div_def)
  have 5: "\<exists>R. operator_times_double double_time X x = Some R
      \<and> operator_double double_time R = double_mult (operator_double double_time X) x"
    by (simp add: operator_times_double_def operator_double_def timeRepresentation_double_def
        double_time_def)
  have 6: "double_mult a b = round_double (a * b)" "double_quot a b = round_double (a / b)"
    by (simp_all add: double_mult_def double_quot_def)
  have 7: "double_mult a b = a * b" if "\<bar>m\<bar> < 2 ^ 53 \<and> a * b = real_of_int m * 2 ^ n"
    using that round_double_representable [of m n] by (simp add: double_mult_def)
  have 8: "operator_times_double (count_time 9) \<lparr> timecode = 2000000000 \<rparr> 3
      = Some \<lparr> timecode = 6000000000 \<rparr>"
    by code_simp
  have 9: "operator_double (count_time 9) \<lparr> timecode = 2000000000 \<rparr> = 2"
    "operator_double (count_time 9) \<lparr> timecode = 6000000000 \<rparr> = 6"
    by code_simp+
  have 10: "double_times_time (count_time 9) 3 \<lparr> timecode = 2000000000 \<rparr> = 6"
    by code_simp
  have 11: "time_divide_time (count_time 9) \<lparr> timecode = 6000000000 \<rparr>
      \<lparr> timecode = 3000000000 \<rparr> = Some 2"
    by code_simp
  have 12: "double_divide_time (count_time 9) 3 \<lparr> timecode = 2000000000 \<rparr> = Some (3 / 2)"
    by code_simp
  have 13: "operator_times_double double_time \<lparr> timecode = 2 \<rparr> 3 = Some \<lparr> timecode = 6 \<rparr>"
    by code_simp
  have 14: "operator_double (count_time 9) \<lparr> timecode = 1000000007 \<rparr>
      = 4503599658895693 / 4503599627370496"
    by code_simp
  have 15: "operator_times_double (count_time 9) \<lparr> timecode = 1000000007 \<rparr> 1
      = Some \<lparr> timecode = 1000000006 \<rparr>"
    by code_simp
  show ?thesis
    by (intro conjI impI) (fact 1 2 3 4 5 6 8 9 10 11 12 13 14 15 | erule 7)+
qed

theorem scalar_operators_witness:
  "double_mult 2 3 = 6
   \<and> operator_times_double (count_time 9) \<lparr> timecode = 2000000000 \<rparr> 3
       = Some \<lparr> timecode = 6000000000 \<rparr>
   \<and> double_times_time (count_time 9) 3 \<lparr> timecode = 2000000000 \<rparr> = 6
   \<and> time_divide_time (count_time 9) \<lparr> timecode = 6000000000 \<rparr> \<lparr> timecode = 3000000000 \<rparr>
       = Some 2"
proof -
  note th = scalar_operators [where a = 2 and b = 3 and m = 3 and n = 1]
  have p: "\<bar>3 :: int\<bar> < 2 ^ 53 \<and> (2 :: real) * 3 = real_of_int 3 * 2 ^ 1"
    by simp
  from th p have "double_mult 2 3 = 2 * 3"
    by blast
  then have "double_mult 2 3 = 6"
    by simp
  with th show ?thesis
    by blast
qed

end
